theory Spec2Isabelle
  imports Complex_Main "HOL-Library.Sublist"
begin

section \<open>Python strings\<close>

text \<open>
  A Python \<open>str\<close> is modelled as a \<open>string\<close>: a list of code points below 256
  (the Latin-1 range). The character classes below are those of CPython on that range:
  \<open>str.isspace\<close> (also the class \<open>\s\<close> of \<open>re\<close>, and what \<open>strip\<close> and
  \<open>split\<close> remove), \<open>str.lower\<close>, the decimal digits \<open>\d\<close> and the word characters
  \<open>\w\<close>. Floating point numbers are modelled as exact rationals.
\<close>

definition py_isspace :: "char \<Rightarrow> bool" where
  "py_isspace c \<longleftrightarrow> c \<in> set [CHR 0x09, CHR 0x0A, CHR 0x0B, CHR 0x0C, CHR 0x0D,
     CHR 0x1C, CHR 0x1D, CHR 0x1E, CHR 0x1F, CHR 0x20, CHR 0x85, CHR 0xA0]"

definition upper_chars :: string where
  "upper_chars = ''ABCDEFGHIJKLMNOPQRSTUVWXYZ'' @
     [CHR 0xC0, CHR 0xC1, CHR 0xC2, CHR 0xC3, CHR 0xC4, CHR 0xC5, CHR 0xC6, CHR 0xC7,
      CHR 0xC8, CHR 0xC9, CHR 0xCA, CHR 0xCB, CHR 0xCC, CHR 0xCD, CHR 0xCE, CHR 0xCF,
      CHR 0xD0, CHR 0xD1, CHR 0xD2, CHR 0xD3, CHR 0xD4, CHR 0xD5, CHR 0xD6,
      CHR 0xD8, CHR 0xD9, CHR 0xDA, CHR 0xDB, CHR 0xDC, CHR 0xDD, CHR 0xDE]"

definition lower_chars :: string where
  "lower_chars = ''abcdefghijklmnopqrstuvwxyz'' @
     [CHR 0xE0, CHR 0xE1, CHR 0xE2, CHR 0xE3, CHR 0xE4, CHR 0xE5, CHR 0xE6, CHR 0xE7,
      CHR 0xE8, CHR 0xE9, CHR 0xEA, CHR 0xEB, CHR 0xEC, CHR 0xED, CHR 0xEE, CHR 0xEF,
      CHR 0xF0, CHR 0xF1, CHR 0xF2, CHR 0xF3, CHR 0xF4, CHR 0xF5, CHR 0xF6,
      CHR 0xF8, CHR 0xF9, CHR 0xFA, CHR 0xFB, CHR 0xFC, CHR 0xFD, CHR 0xFE]"

definition py_lower_char :: "char \<Rightarrow> char" where
  "py_lower_char c = (case map_of (zip upper_chars lower_chars) c of Some d \<Rightarrow> d | None \<Rightarrow> c)"

definition py_lower :: "string \<Rightarrow> string" where
  "py_lower s = map py_lower_char s"

text \<open>\<open>sub in s\<close>: substring test.\<close>

fun py_in :: "string \<Rightarrow> string \<Rightarrow> bool" where
  "py_in sub [] \<longleftrightarrow> sub = []"
| "py_in sub (c # cs) \<longleftrightarrow> prefix sub (c # cs) \<or> py_in sub cs"

text \<open>\<open>sep.join(xs)\<close>.\<close>

fun py_join :: "string \<Rightarrow> string list \<Rightarrow> string" where
  "py_join sep [] = []"
| "py_join sep [x] = x"
| "py_join sep (x # y # ys) = x @ sep @ py_join sep (y # ys)"

text \<open>\<open>s.strip()\<close>.\<close>

definition py_strip :: "string \<Rightarrow> string" where
  "py_strip s = rev (dropWhile py_isspace (rev (dropWhile py_isspace s)))"

text \<open>\<open>s.split()\<close>: the maximal runs of non-whitespace characters.\<close>

fun split_ws :: "string \<Rightarrow> string \<Rightarrow> string list" where
  "split_ws cur [] = (if cur = [] then [] else [cur])"
| "split_ws cur (c # cs) =
     (if py_isspace c then (if cur = [] then split_ws [] cs else cur # split_ws [] cs)
      else split_ws (cur @ [c]) cs)"

definition py_split :: "string \<Rightarrow> string list" where
  "py_split s = split_ws [] s"

text \<open>\<open>str(n)\<close> for a natural number.\<close>

definition digit_char :: "nat \<Rightarrow> char" where
  "digit_char d = ''0123456789'' ! d"

fun str_nat :: "nat \<Rightarrow> string" where
  "str_nat n = (if n < 10 then [digit_char n] else str_nat (n div 10) @ [digit_char (n mod 10)])"

declare str_nat.simps [simp del]

section \<open>Regular expressions of Python's \<open>re\<close> module\<close>

text \<open>
  The patterns of the program are values of the datatype \<open>regex\<close>, and a backtracking
  matcher computes, for a pattern and a position of the subject, the list of all ways
  the pattern can match there, in the order in which \<open>re\<close> tries them (the first
  alternative before the second, a greedy repetition longest first, a lazy one shortest
  first). The head of that list is the match \<open>re\<close> returns. A position is the
  character before it (if any), the rest of the subject, and the groups captured so far.
  Every repeated sub-pattern of the program consumes at least one character, and the
  matcher only follows iterations that consume one.
\<close>

datatype regex =
    Cls "char \<Rightarrow> bool"
  | Eps
  | Seq regex regex
  | Alt regex regex
  | Rep nat "nat option" bool regex
  | Grp nat regex
  | Bol
  | Eol
  | EndS
  | WordB
  | Behind "char \<Rightarrow> bool"

record mstate =
  st_prev :: "char option"
  st_rest :: string
  st_caps :: "(nat \<times> string) list"

definition is_digit :: "char \<Rightarrow> bool" where
  "is_digit c \<longleftrightarrow> c \<in> set ''0123456789''"

definition is_upper_ascii :: "char \<Rightarrow> bool" where
  "is_upper_ascii c \<longleftrightarrow> c \<in> set ''ABCDEFGHIJKLMNOPQRSTUVWXYZ''"

definition is_lower_ascii :: "char \<Rightarrow> bool" where
  "is_lower_ascii c \<longleftrightarrow> c \<in> set ''abcdefghijklmnopqrstuvwxyz''"

definition is_alpha_ascii :: "char \<Rightarrow> bool" where
  "is_alpha_ascii c \<longleftrightarrow> is_upper_ascii c \<or> is_lower_ascii c"

text \<open>The class \<open>\w\<close>: \<open>str.isalnum\<close> or the underscore.\<close>

definition is_word :: "char \<Rightarrow> bool" where
  "is_word c \<longleftrightarrow> is_alpha_ascii c \<or> is_digit c \<or> c = CHR ''_'' \<or>
     c \<in> set [CHR 0xAA, CHR 0xB2, CHR 0xB3, CHR 0xB5, CHR 0xB9, CHR 0xBA, CHR 0xBC, CHR 0xBD, CHR 0xBE] \<or>
     c \<in> set (drop 26 upper_chars) \<or> c \<in> set (drop 26 lower_chars) \<or> c = CHR 0xDF \<or> c = CHR 0xFF"

definition newline :: char where
  "newline = CHR 0x0A"

text \<open>The text between two positions of the same subject.\<close>

definition consumed :: "mstate \<Rightarrow> mstate \<Rightarrow> string" where
  "consumed st st' = take (length (st_rest st) - length (st_rest st')) (st_rest st)"

definition advanced :: "mstate \<Rightarrow> mstate \<Rightarrow> bool" where
  "advanced st st' \<longleftrightarrow> length (st_rest st') < length (st_rest st)"

text \<open>
  Repetition of a matcher \<open>m\<close> between \<open>mn\<close> and \<open>mx\<close> times; \<open>fuel\<close> bounds
  the number of iterations and is the length of the rest of the subject.
\<close>

fun dec_max :: "nat option \<Rightarrow> nat option" where
  "dec_max None = None"
| "dec_max (Some n) = Some (n - 1)"

fun rep_ms :: "(mstate \<Rightarrow> mstate list) \<Rightarrow> bool \<Rightarrow> nat \<Rightarrow> nat option \<Rightarrow> nat \<Rightarrow> mstate \<Rightarrow> mstate list" where
  "rep_ms m greedy mn mx 0 st = (if mn = 0 then [st] else [])"
| "rep_ms m greedy mn mx (Suc fuel) st =
     (let more = (if mx = Some 0 then []
                  else concat (map (rep_ms m greedy (mn - 1) (dec_max mx) fuel)
                                   (filter (advanced st) (m st))));
          stop = (if mn = 0 then [st] else [])
      in if greedy then more @ stop else stop @ more)"

fun ms :: "regex \<Rightarrow> mstate \<Rightarrow> mstate list" where
  "ms (Cls P) st =
     (case st_rest st of
        [] \<Rightarrow> []
      | c # cs \<Rightarrow> if P c then [st\<lparr>st_prev := Some c, st_rest := cs\<rparr>] else [])"
| "ms Eps st = [st]"
| "ms (Seq r1 r2) st = concat (map (\<lambda>st'. ms r2 st') (ms r1 st))"
| "ms (Alt r1 r2) st = ms r1 st @ ms r2 st"
| "ms (Rep mn mx greedy r) st = rep_ms (\<lambda>st'. ms r st') greedy mn mx (length (st_rest st)) st"
| "ms (Grp n r) st = map (\<lambda>st'. st'\<lparr>st_caps := (n, consumed st st') # st_caps st'\<rparr>) (ms r st)"
| "ms Bol st = (if st_prev st = None \<or> st_prev st = Some newline then [st] else [])"
| "ms Eol st = (case st_rest st of [] \<Rightarrow> [st] | c # cs \<Rightarrow> if c = newline then [st] else [])"
| "ms EndS st = (if st_rest st = [] \<or> st_rest st = [newline] then [st] else [])"
| "ms WordB st =
     (let w_prev = (case st_prev st of None \<Rightarrow> False | Some c \<Rightarrow> is_word c);
          w_next = (case st_rest st of [] \<Rightarrow> False | c # cs \<Rightarrow> is_word c)
      in if w_prev \<noteq> w_next then [st] else [])"
| "ms (Behind P) st = (case st_prev st of None \<Rightarrow> [] | Some c \<Rightarrow> if P c then [st] else [])"

text \<open>
  \<open>Bol\<close> and \<open>Eol\<close> are \<open>^\<close> and \<open>$\<close> under \<open>re.MULTILINE\<close>; \<open>EndS\<close> is \<open>$\<close>
  without the flag; \<open>WordB\<close> is \<open>\b\<close>; \<open>Behind P\<close> is a look-behind \<open>(?<=[...])\<close> of
  one character.
\<close>

subsection \<open>Pattern notation\<close>

definition chr :: "char \<Rightarrow> regex" where
  "chr c = Cls (\<lambda>x. x = c)"

definition oneof :: "string \<Rightarrow> regex" where
  "oneof s = Cls (\<lambda>x. x \<in> set s)"

definition dot :: regex where
  "dot = Cls (\<lambda>x. x \<noteq> newline)"

definition digit :: regex where
  "digit = Cls is_digit"

definition space :: regex where
  "space = Cls py_isspace"

definition wordc :: regex where
  "wordc = Cls is_word"

definition alpha :: regex where
  "alpha = Cls is_alpha_ascii"

text \<open>A character of the pattern that is outside the modelled code points: it never matches.\<close>

definition beyond_latin1 :: regex where
  "beyond_latin1 = Cls (\<lambda>x. False)"

fun rseq :: "regex list \<Rightarrow> regex" where
  "rseq [] = Eps"
| "rseq [r] = r"
| "rseq (r # rs) = Seq r (rseq rs)"

fun alts :: "regex list \<Rightarrow> regex" where
  "alts [] = Cls (\<lambda>x. False)"
| "alts [r] = r"
| "alts (r # rs) = Alt r (alts rs)"

definition lit :: "string \<Rightarrow> regex" where
  "lit s = rseq (map chr s)"

text \<open>A literal under \<open>re.IGNORECASE\<close>.\<close>

definition ilit :: "string \<Rightarrow> regex" where
  "ilit s = rseq (map (\<lambda>c. Cls (\<lambda>x. py_lower_char x = py_lower_char c)) s)"

definition star :: "regex \<Rightarrow> regex" where
  "star r = Rep 0 None True r"

definition plus :: "regex \<Rightarrow> regex" where
  "plus r = Rep 1 None True r"

definition opt :: "regex \<Rightarrow> regex" where
  "opt r = Rep 0 (Some 1) True r"

definition plus_lazy :: "regex \<Rightarrow> regex" where
  "plus_lazy r = Rep 1 None False r"

definition times :: "nat \<Rightarrow> regex \<Rightarrow> regex" where
  "times n r = Rep n (Some n) True r"

definition between :: "nat \<Rightarrow> nat \<Rightarrow> regex \<Rightarrow> regex" where
  "between m n r = Rep m (Some n) True r"

definition at_least :: "nat \<Rightarrow> regex \<Rightarrow> regex" where
  "at_least n r = Rep n None True r"

subsection \<open>\<open>match\<close>, \<open>search\<close>, \<open>finditer\<close> and \<open>findall\<close>\<close>

record rmatch =
  m_start :: nat
  m_end :: nat
  m_text :: string
  m_groups :: "(nat \<times> string) list"

text \<open>\<open>m.group(i)\<close> of a group that took part in the match.\<close>

definition group :: "rmatch \<Rightarrow> nat \<Rightarrow> string option" where
  "group m i = map_of (m_groups m) i"

text \<open>The text of group \<open>i\<close> as \<open>findall\<close> reports it: empty when the group did not take part.\<close>

definition group_text :: "rmatch \<Rightarrow> nat \<Rightarrow> string" where
  "group_text m i = (case group m i of None \<Rightarrow> [] | Some s \<Rightarrow> s)"

text \<open>The first match of \<open>r\<close> at the position \<open>(p, s)\<close>; \<open>pos\<close> is its index in the subject.\<close>

definition match_at :: "regex \<Rightarrow> nat \<Rightarrow> char option \<Rightarrow> string \<Rightarrow> (rmatch \<times> mstate) option" where
  "match_at r pos p s =
     (let st = \<lparr>st_prev = p, st_rest = s, st_caps = []\<rparr> in
      case ms r st of
        [] \<Rightarrow> None
      | st' # _ \<Rightarrow>
          Some (\<lparr>m_start = pos, m_end = pos + length (consumed st st'),
                 m_text = consumed st st', m_groups = st_caps st'\<rparr>, st'))"

text \<open>\<open>pattern.match(s)\<close>: a match at the start of the subject.\<close>

definition re_match :: "regex \<Rightarrow> string \<Rightarrow> rmatch option" where
  "re_match r s = map_option fst (match_at r 0 None s)"

text \<open>\<open>re.search\<close>: the first position, from the left, at which the pattern matches.\<close>

fun search_from :: "regex \<Rightarrow> nat \<Rightarrow> char option \<Rightarrow> string \<Rightarrow> rmatch option" where
  "search_from r pos p [] = map_option fst (match_at r pos p [])"
| "search_from r pos p (c # cs) =
     (case match_at r pos p (c # cs) of
        Some (m, st') \<Rightarrow> Some m
      | None \<Rightarrow> search_from r (pos + 1) (Some c) cs)"

definition re_search :: "regex \<Rightarrow> string \<Rightarrow> rmatch option" where
  "re_search r s = search_from r 0 None s"

text \<open>
  \<open>finditer\<close>: the successive non-overlapping matches, scanning from the left. After a
  match the scan resumes at its end; after an empty match it moves one character on.
\<close>

function finditer_from :: "regex \<Rightarrow> nat \<Rightarrow> char option \<Rightarrow> string \<Rightarrow> rmatch list" where
  "finditer_from r pos p s =
     (case match_at r pos p s of
        None \<Rightarrow> (case s of [] \<Rightarrow> [] | c # cs \<Rightarrow> finditer_from r (pos + 1) (Some c) cs)
      | Some (m, st') \<Rightarrow>
          m # (if length (st_rest st') < length s
               then finditer_from r (pos + (length s - length (st_rest st'))) (st_prev st') (st_rest st')
               else (case s of [] \<Rightarrow> [] | c # cs \<Rightarrow> finditer_from r (pos + 1) (Some c) cs)))"
  by pat_completeness auto
termination
  by (relation "measure (\<lambda>(r, pos, p, s). length s)") auto

declare finditer_from.simps [simp del]

definition finditer :: "regex \<Rightarrow> string \<Rightarrow> rmatch list" where
  "finditer r s = finditer_from r 0 None s"

text \<open>\<open>findall\<close> for a pattern without groups, with one group, and with two groups.\<close>

definition findall0 :: "regex \<Rightarrow> string \<Rightarrow> string list" where
  "findall0 r s = map m_text (finditer r s)"

definition findall1 :: "regex \<Rightarrow> string \<Rightarrow> string list" where
  "findall1 r s = map (\<lambda>m. group_text m 1) (finditer r s)"

definition findall2 :: "regex \<Rightarrow> string \<Rightarrow> (string \<times> string) list" where
  "findall2 r s = map (\<lambda>m. (group_text m 1, group_text m 2)) (finditer r s)"

text \<open>Patterns without a capturing group.\<close>

fun groupless :: "regex \<Rightarrow> bool" where
  "groupless (Grp n r) = False"
| "groupless (Seq r1 r2) = (groupless r1 \<and> groupless r2)"
| "groupless (Alt r1 r2) = (groupless r1 \<and> groupless r2)"
| "groupless (Rep mn mx g r) = groupless r"
| "groupless r = True"

section \<open>Schema detector (processors/schema_detector.py)\<close>

record schema_def =
  category :: string
  indicators :: "string list"
  required_indicators :: nat

record schema_match =
  schema_type :: string
  confidence :: rat
  matched_indicators :: "string list"
  match_category :: string

datatype py_error = ZeroDivisionError | ValueError

text \<open>\<open>_build_schema_definitions\<close>: the catalog, in the order of the dictionary literal.\<close>

definition schemas :: "(string \<times> schema_def) list" where
  "schemas = [
    (''w2'', \<lparr>category = ''tax'', indicators = [
        ''wage and tax statement'', ''w-2'', ''form w-2'',
        ''employer identification number'', ''ein'',
        ''employee's social security'', ''federal income tax withheld'',
        ''social security wages'', ''medicare wages''],
      required_indicators = 2\<rparr>),
    (''w4'', \<lparr>category = ''tax'', indicators = [
        ''employee's withholding'', ''w-4'', ''form w-4'',
        ''withholding allowance'', ''personal allowances'',
        ''additional amount to withhold''],
      required_indicators = 2\<rparr>),
    (''1099'', \<lparr>category = ''tax'', indicators = [
        ''1099'', ''form 1099'', ''miscellaneous income'',
        ''nonemployee compensation'', ''payer's federal'',
        ''rents'', ''royalties'', ''other income''],
      required_indicators = 2\<rparr>),
    (''1040'', \<lparr>category = ''tax'', indicators = [
        ''1040'', ''form 1040'', ''u.s. individual income tax'',
        ''adjusted gross income'', ''taxable income'',
        ''filing status'', ''standard deduction'', ''tax return''],
      required_indicators = 2\<rparr>),
    (''insurance_claim'', \<lparr>category = ''medical'', indicators = [
        ''insurance claim'', ''claim form'', ''cms-1500'', ''hcfa'',
        ''diagnosis code'', ''icd'', ''cpt'', ''procedure code'',
        ''date of service'', ''provider'', ''patient information'',
        ''policyholder'', ''group number'', ''member id''],
      required_indicators = 3\<rparr>),
    (''medical_intake'', \<lparr>category = ''medical'', indicators = [
        ''patient intake'', ''medical history'', ''health history'',
        ''allergies'', ''medications'', ''emergency contact'',
        ''primary care physician'', ''insurance information'',
        ''chief complaint'', ''symptoms'', ''family history''],
      required_indicators = 3\<rparr>),
    (''hipaa_authorization'', \<lparr>category = ''medical'', indicators = [
        ''hipaa'', ''authorization'', ''protected health information'',
        ''phi'', ''release of information'', ''health information'',
        ''disclose'', ''privacy''],
      required_indicators = 3\<rparr>),
    (''job_application'', \<lparr>category = ''employment'', indicators = [
        ''employment application'', ''job application'', ''applicant'',
        ''position applied'', ''work experience'', ''previous employer'',
        ''references'', ''education history'', ''equal opportunity'',
        ''availability'', ''desired salary''],
      required_indicators = 3\<rparr>),
    (''i9'', \<lparr>category = ''employment'', indicators = [
        ''i-9'', ''form i-9'', ''employment eligibility'',
        ''verification'', ''citizenship status'', ''work authorization'',
        ''list a'', ''list b'', ''list c'', ''uscis''],
      required_indicators = 3\<rparr>),
    (''onboarding'', \<lparr>category = ''employment'', indicators = [
        ''new hire'', ''onboarding'', ''employee information'',
        ''start date'', ''department'', ''manager'', ''direct deposit'',
        ''emergency contact'', ''benefits enrollment''],
      required_indicators = 3\<rparr>),
    (''loan_application'', \<lparr>category = ''financial'', indicators = [
        ''loan application'', ''credit application'', ''borrower'',
        ''loan amount'', ''interest rate'', ''collateral'',
        ''monthly payment'', ''debt-to-income'', ''credit score'',
        ''assets'', ''liabilities'', ''loan purpose''],
      required_indicators = 3\<rparr>),
    (''bank_account'', \<lparr>category = ''financial'', indicators = [
        ''account opening'', ''new account'', ''account application'',
        ''checking'', ''savings'', ''routing number'', ''account number'',
        ''joint account'', ''beneficiary'', ''initial deposit''],
      required_indicators = 3\<rparr>),
    (''contract'', \<lparr>category = ''legal'', indicators = [
        ''agreement'', ''contract'', ''parties'', ''terms and conditions'',
        ''whereas'', ''hereby'', ''binding'', ''effective date'',
        ''termination'', ''governing law'', ''jurisdiction'',
        ''indemnification'', ''liability''],
      required_indicators = 3\<rparr>),
    (''power_of_attorney'', \<lparr>category = ''legal'', indicators = [
        ''power of attorney'', ''attorney-in-fact'', ''principal'',
        ''agent'', ''authority'', ''durable'', ''revocation'',
        ''notarized'', ''witness''],
      required_indicators = 3\<rparr>),
    (''dmv'', \<lparr>category = ''government'', indicators = [
        ''dmv'', ''driver license'', ''vehicle registration'',
        ''title'', ''vin'', ''license plate'', ''odometer'',
        ''registration fee'', ''department of motor vehicles''],
      required_indicators = 3\<rparr>),
    (''passport'', \<lparr>category = ''government'', indicators = [
        ''passport'', ''citizenship'', ''place of birth'',
        ''passport number'', ''nationality'', ''travel document'',
        ''department of state'', ''ds-11'', ''ds-82''],
      required_indicators = 3\<rparr>),
    (''school_application'', \<lparr>category = ''education'', indicators = [
        ''admission'', ''application'', ''enrollment'', ''student'',
        ''gpa'', ''transcript'', ''academic'', ''school'',
        ''grade level'', ''program'', ''degree'', ''major''],
      required_indicators = 3\<rparr>),
    (''financial_aid'', \<lparr>category = ''education'', indicators = [
        ''fafsa'', ''financial aid'', ''student aid'', ''grant'',
        ''scholarship'', ''loan'', ''efc'', ''expected family contribution'',
        ''award letter'', ''disbursement''],
      required_indicators = 3\<rparr>)]"

text \<open>
  The text that is searched: the lower-cased text, followed (when a non-empty field
  dictionary is given) by a blank and the lower-cased \<open>key value\<close> rendering of the
  fields. \<open>str_of\<close> is Python's \<open>str\<close> on field values.
\<close>

definition search_text :: "('v \<Rightarrow> string) \<Rightarrow> string \<Rightarrow> (string \<times> 'v) list option \<Rightarrow> string" where
  "search_text str_of text flds =
     (case flds of
        None \<Rightarrow> py_lower text
      | Some fs \<Rightarrow>
          if fs = [] then py_lower text
          else py_lower text @ '' '' @
               py_lower (py_join '' '' (map (\<lambda>(k, v). k @ '' '' @ str_of v) fs)))"

definition matched_of :: "string \<Rightarrow> schema_def \<Rightarrow> string list" where
  "matched_of text_lower d = filter (\<lambda>indicator. py_in indicator text_lower) (indicators d)"

text \<open>
  The loop of \<open>detect_with_confidence\<close> over the catalog; the state is
  \<open>(best_match, best_score)\<close>. The division raises when a candidate has no indicators.
\<close>

fun detect_loop :: "string \<Rightarrow> (string \<times> schema_def) list \<Rightarrow> schema_match option \<times> rat
    \<Rightarrow> py_error + (schema_match option \<times> rat)" where
  "detect_loop text_lower [] st = Inr st"
| "detect_loop text_lower ((ty, d) # rest) (best_match, best_score) =
     (let matched = matched_of text_lower d in
      if length matched \<ge> required_indicators d then
        (if length (indicators d) = 0 then Inl ZeroDivisionError
         else
           let score = of_nat (length matched) / of_nat (length (indicators d)) in
           if score > best_score then
             detect_loop text_lower rest
               (Some \<lparr>schema_type = ty, confidence = min 1 (score * (6 / 5)),
                      matched_indicators = matched, match_category = category d\<rparr>, score)
           else detect_loop text_lower rest (best_match, best_score))
      else detect_loop text_lower rest (best_match, best_score))"

definition detect_with_confidence ::
    "('v \<Rightarrow> string) \<Rightarrow> string \<Rightarrow> (string \<times> 'v) list option \<Rightarrow> py_error + schema_match option" where
  "detect_with_confidence str_of text flds =
     (if text = [] then Inr None
      else case detect_loop (search_text str_of text flds) schemas (None, 0) of
             Inl e \<Rightarrow> Inl e
           | Inr (best_match, best_score) \<Rightarrow> Inr best_match)"

definition detect :: "('v \<Rightarrow> string) \<Rightarrow> string \<Rightarrow> (string \<times> 'v) list option \<Rightarrow> py_error + string option" where
  "detect str_of text flds =
     (case detect_with_confidence str_of text flds of
        Inl e \<Rightarrow> Inl e
      | Inr None \<Rightarrow> Inr None
      | Inr (Some m) \<Rightarrow> Inr (if confidence m \<ge> 1 / 2 then Some (schema_type m) else None))"

text \<open>\<open>get_expected_fields\<close> and \<open>validate_fields\<close>.\<close>

definition expected_fields :: "(string \<times> string list) list" where
  "expected_fields = [
    (''w2'', [''Employee SSN'', ''Employer EIN'', ''Employee Name'',
              ''Employer Name'', ''Wages'', ''Federal Tax Withheld'',
              ''Social Security Wages'', ''Medicare Wages'']),
    (''insurance_claim'', [''Patient Name'', ''Date of Birth'', ''Insurance ID'',
              ''Group Number'', ''Provider Name'', ''Date of Service'',
              ''Diagnosis Code'', ''Procedure Code'', ''Amount Charged'']),
    (''job_application'', [''Applicant Name'', ''Address'', ''Phone'', ''Email'',
              ''Position Applied For'', ''Desired Salary'',
              ''Work Experience'', ''Education'', ''References'']),
    (''loan_application'', [''Borrower Name'', ''SSN'', ''Address'', ''Employment'',
              ''Annual Income'', ''Loan Amount'', ''Loan Purpose'',
              ''Assets'', ''Liabilities''])]"

definition get_expected_fields :: "string \<Rightarrow> string list" where
  "get_expected_fields ty = (case map_of expected_fields ty of None \<Rightarrow> [] | Some fs \<Rightarrow> fs)"

definition field_matched :: "string list \<Rightarrow> string \<Rightarrow> bool" where
  "field_matched field_names_lower expected_field =
     (let expected_lower = py_lower expected_field in
      list_ex (\<lambda>f. py_in expected_lower f \<or> py_in f expected_lower) field_names_lower)"

definition validate_fields :: "string \<Rightarrow> (string \<times> 'v) list \<Rightarrow> rat \<times> string list" where
  "validate_fields ty flds =
     (let expected = get_expected_fields ty in
      if expected = [] then (1, [])
      else
        let field_names_lower = map (\<lambda>(k, v). py_lower k) flds;
            found = length (filter (field_matched field_names_lower) expected);
            missing = filter (\<lambda>e. \<not> field_matched field_names_lower e) expected
        in (of_nat found / of_nat (length expected), missing))"

text \<open>
  The claim about classification, in its own words: a type is a candidate when enough of
  its indicators occur in the searched text, its score is the matched share of its
  indicators, and the reported match is the first entry of the catalog whose score is
  maximal among the candidates.
\<close>

definition is_candidate :: "string \<Rightarrow> schema_def \<Rightarrow> bool" where
  "is_candidate txt d \<longleftrightarrow> required_indicators d \<le> length (matched_of txt d)"

definition cand_score :: "string \<Rightarrow> schema_def \<Rightarrow> rat" where
  "cand_score txt d = of_nat (length (matched_of txt d)) / of_nat (length (indicators d))"

definition mk_match :: "string \<Rightarrow> string \<Rightarrow> schema_def \<Rightarrow> schema_match" where
  "mk_match txt ty d =
     \<lparr>schema_type = ty, confidence = min 1 (cand_score txt d * (6 / 5)),
      matched_indicators = matched_of txt d, match_category = category d\<rparr>"

definition first_best :: "string \<Rightarrow> (string \<times> schema_def) list \<Rightarrow> string \<Rightarrow> schema_def \<Rightarrow> bool" where
  "first_best txt cat ty d \<longleftrightarrow>
     (\<exists>pre post. cat = pre @ (ty, d) # post \<and> is_candidate txt d \<and>
        (\<forall>e \<in> set pre. is_candidate txt (snd e) \<longrightarrow> cand_score txt (snd e) < cand_score txt d) \<and>
        (\<forall>e \<in> set post. is_candidate txt (snd e) \<longrightarrow> cand_score txt (snd e) \<le> cand_score txt d))"

definition loop_inv :: "string \<Rightarrow> (string \<times> schema_def) list \<Rightarrow> schema_match option \<times> rat \<Rightarrow> bool" where
  "loop_inv txt seen st \<longleftrightarrow>
     (fst st = None \<and> snd st = 0 \<and> (\<forall>e \<in> set seen. \<not> is_candidate txt (snd e))) \<or>
     (\<exists>ty d. first_best txt seen ty d \<and> fst st = Some (mk_match txt ty d) \<and> snd st = cand_score txt d)"

section \<open>Table parser (processors/table_parser.py)\<close>

record parsed_table =
  headers :: "string list"
  rows :: "string list list"
  column_count :: nat
  row_count :: nat
  has_header :: bool
  table_type :: "string option"

text \<open>\<open>max(...)\<close> over a non-empty sequence (the only use is guarded by \<open>if not table\<close>).\<close>

fun py_max :: "nat list \<Rightarrow> nat" where
  "py_max [] = 0"
| "py_max [x] = x"
| "py_max (x # y # ys) = max x (py_max (y # ys))"

text \<open>\<open>str(cell).strip() if cell else ""\<close>.\<close>

definition clean_cell :: "string \<Rightarrow> string" where
  "clean_cell cell = (if cell \<noteq> [] then py_strip cell else [])"

text \<open>The padding loop \<open>while len(clean_row) < max_cols: clean_row.append("")\<close>.\<close>

definition pad_row :: "nat \<Rightarrow> string list \<Rightarrow> string list" where
  "pad_row max_cols clean_row = clean_row @ replicate (max_cols - length clean_row) []"

definition normalize_table :: "string list list \<Rightarrow> string list list" where
  "normalize_table table =
     (if table = [] then []
      else let max_cols = py_max (map length table)
           in map (\<lambda>row. pad_row max_cols (map clean_cell row)) table)"

text \<open>
  \<open>_is_numeric\<close>: the currency and percent signs, commas and whitespace are removed and
  \<open>float\<close> is tried. \<open>float_ok s\<close> says that Python's \<open>float(s)\<close> does not raise; it is
  a parameter of the model. (The euro sign of the source's character class is outside
  the modelled code points.)
\<close>

definition strip_numeric_formatting :: "string \<Rightarrow> string" where
  "strip_numeric_formatting v =
     filter (\<lambda>c. \<not> (c \<in> set [CHR ''$'', CHR '','', CHR 0xA3, CHR ''%''] \<or> py_isspace c)) v"

definition is_numeric :: "(string \<Rightarrow> bool) \<Rightarrow> string \<Rightarrow> bool" where
  "is_numeric float_ok v \<longleftrightarrow> (if v = [] then False else float_ok (strip_numeric_formatting v))"

definition common_headers :: "string list" where
  "common_headers = [''name'', ''date'', ''amount'', ''total'', ''description'', ''id'', ''number'',
     ''quantity'', ''price'', ''item'', ''type'', ''status'', ''value'', ''count'']"

definition count_where :: "('a \<Rightarrow> bool) \<Rightarrow> 'a list \<Rightarrow> rat" where
  "count_where P xs = of_nat (length (filter P xs))"

definition numeric_ratio :: "(string \<Rightarrow> bool) \<Rightarrow> string list \<Rightarrow> rat" where
  "numeric_ratio float_ok row = count_where (is_numeric float_ok) row / of_nat (max 1 (length row))"

text \<open>
  \<open>_detect_headers\<close>. The four signals each add one point to \<open>header_score\<close>; the ratios
  are exact rationals here.
\<close>

definition detect_headers :: "(string \<Rightarrow> bool) \<Rightarrow> string list list \<Rightarrow> bool \<times> string list" where
  "detect_headers float_ok table =
     (if table = [] \<or> length table < 2 then (False, [])
      else
        let first_row = table ! 0;
            second_row = table ! 1;
            first_row_text_ratio =
              count_where (\<lambda>cell. cell \<noteq> [] \<and> \<not> is_numeric float_ok cell) first_row
                / of_nat (max 1 (length first_row));
            s1 = (if first_row_text_ratio > 1 / 2 then 1 else 0 :: nat);
            second_row_numeric_ratio =
              count_where (\<lambda>cell. cell \<noteq> [] \<and> is_numeric float_ok cell) second_row
                / of_nat (max 1 (length second_row));
            s2 = (if second_row_numeric_ratio > first_row_text_ratio then 1 else 0);
            s3 = (if list_ex (\<lambda>cell. cell \<noteq> [] \<and> list_ex (\<lambda>h. py_in h (py_lower cell)) common_headers)
                       first_row then 1 else 0);
            s4 = (if length table > 2 then
                    (let other_rows_numeric = map (numeric_ratio float_ok) (tl table);
                         avg_numeric = sum_list other_rows_numeric / of_nat (length other_rows_numeric);
                         first_numeric = numeric_ratio float_ok first_row
                     in if first_numeric < avg_numeric - 1 / 5 then 1 else 0)
                  else 0);
            header_score = s1 + s2 + s3 + s4;
            has_hdr = (header_score \<ge> 2)
        in (has_hdr, if has_hdr then first_row else []))"

definition infer_table_type :: "string list \<Rightarrow> string list list \<Rightarrow> string option" where
  "infer_table_type hdrs rws =
     (let joined = py_join '' '' (map py_lower hdrs) in
      if list_ex (\<lambda>h. py_in h joined) [''amount'', ''total'', ''price'', ''cost'', ''balance'']
        then Some ''financial''
      else if list_ex (\<lambda>h. py_in h joined) [''name'', ''email'', ''phone'', ''address'']
        then Some ''contact''
      else if list_ex (\<lambda>h. py_in h joined) [''date'', ''time'', ''schedule'', ''due'']
        then Some ''schedule''
      else if list_ex (\<lambda>h. py_in h joined) [''item'', ''quantity'', ''stock'', ''product'']
        then Some ''inventory''
      else Some ''general'')"

text \<open>The synthetic headers \<open>[f"Column {i+1}" for i in range(n)]\<close>.\<close>

definition column_names :: "nat \<Rightarrow> string list" where
  "column_names n = map (\<lambda>i. ''Column '' @ str_nat (i + 1)) [0..<n]"

text \<open>
  The body of the loop of \<open>TableParser.parse\<close> for one raw table: \<open>None\<close> when the table
  is skipped (\<open>continue\<close>).
\<close>

definition parse_table :: "(string \<Rightarrow> bool) \<Rightarrow> string list list \<Rightarrow> parsed_table option" where
  "parse_table float_ok raw_table =
     (if raw_table = [] \<or> length raw_table < 1 then None
      else
        let normalized = normalize_table raw_table in
        if normalized = [] then None
        else
          let (has_hdr, hdrs0) = detect_headers float_ok normalized;
              hdrs = (if has_hdr then hdrs0 else column_names (length (normalized ! 0)));
              rws = (if has_hdr then tl normalized else normalized)
          in Some \<lparr>headers = hdrs, rows = rws, column_count = length hdrs,
                    row_count = length rws, has_header = has_hdr,
                    table_type = infer_table_type hdrs rws\<rparr>)"

definition parse_tables :: "(string \<Rightarrow> bool) \<Rightarrow> string list list list \<Rightarrow> parsed_table list" where
  "parse_tables float_ok raw_tables = List.map_filter (parse_table float_ok) raw_tables"

text \<open>The largest row length of a raw table, as the claims name it.\<close>

definition max_row_length :: "string list list \<Rightarrow> nat" where
  "max_row_length table = Max (length ` set table)"

definition table_normalized :: "string list list \<Rightarrow> parsed_table \<Rightarrow> bool" where
  "table_normalized raw_table pt \<longleftrightarrow>
     (\<forall>row \<in> set (rows pt). length row = max_row_length raw_table) \<and>
     (\<not> has_header pt \<longrightarrow> headers pt = column_names (max_row_length raw_table))"

section \<open>Field parser (processors/field_parser.py)\<close>

text \<open>
  The values \<open>_process_value\<close> and the special extractors store in a field dictionary:
  a string, an int, a float, a bool, the dictionary
  \<open>{'type': 'currency', 'value': v, 'raw': s}\<close>, the dictionary
  \<open>{'type': 'date', 'value': s}\<close>, or a list of strings.
\<close>

datatype pyvalue =
    VStr string
  | VInt int
  | VFloat rat
  | VBool bool
  | VCurrency rat string
  | VDate string
  | VList "string list"

text \<open>
  A Python dictionary, in insertion order: assigning to a key that is present replaces
  its value in place, assigning to a new key appends it.
\<close>

fun dict_set :: "(string \<times> 'v) list \<Rightarrow> string \<Rightarrow> 'v \<Rightarrow> (string \<times> 'v) list" where
  "dict_set [] k v = [(k, v)]"
| "dict_set ((k', v') # d) k v = (if k' = k then (k, v) # d else (k', v') # dict_set d k v)"

definition dict_update :: "(string \<times> 'v) list \<Rightarrow> (string \<times> 'v) list \<Rightarrow> (string \<times> 'v) list" where
  "dict_update d other = fold (\<lambda>(k, v) acc. dict_set acc k v) other d"

subsection \<open>The patterns\<close>

text \<open>
  \<open>_build_patterns\<close>, all compiled with \<open>re.MULTILINE\<close>. The en dash and em dash of
  the second pattern and the check marks of the sixth are outside the modelled code
  points and are left out of their character classes. In the order of the source:
  \<^item> \<open>^([A-Za-z][A-Za-z0-9\s\-_/()]+?):\s*(.+)$\<close>
  \<^item> \<open>^([A-Za-z][A-Za-z0-9\s_]+?)\s*[-]\s*(.+)$\<close>
  \<^item> \<open>^([A-Za-z][A-Za-z0-9\s_]+?)\s*=\s*(.+)$\<close>
  \<^item> \<open>^([A-Z][A-Z0-9\s]+):\s*(.+)$\<close>
  \<^item> \<open>^\d+\.\s*([A-Za-z][A-Za-z0-9\s]+?):\s*(.+)$\<close>
  \<^item> \<open>\[([xX]|\s)\]\s*(.+)$\<close>
\<close>

definition label_class :: "string \<Rightarrow> regex" where
  "label_class extra = Cls (\<lambda>c. is_alpha_ascii c \<or> is_digit c \<or> py_isspace c \<or> c \<in> set extra)"

definition patterns :: "regex list" where
  "patterns = [
     rseq [Bol, Grp 1 (Seq alpha (plus_lazy (label_class ''-_/()''))),
           chr CHR '':'', star space, Grp 2 (plus dot), Eol],
     rseq [Bol, Grp 1 (Seq alpha (plus_lazy (label_class ''_''))),
           star space, oneof ''-'', star space, Grp 2 (plus dot), Eol],
     rseq [Bol, Grp 1 (Seq alpha (plus_lazy (label_class ''_''))),
           star space, chr CHR ''='', star space, Grp 2 (plus dot), Eol],
     rseq [Bol, Grp 1 (Seq (Cls is_upper_ascii)
                        (plus (Cls (\<lambda>c. is_upper_ascii c \<or> is_digit c \<or> py_isspace c)))),
           chr CHR '':'', star space, Grp 2 (plus dot), Eol],
     rseq [Bol, plus digit, chr CHR ''.'', star space,
           Grp 1 (Seq alpha (plus_lazy (label_class ''''))),
           chr CHR '':'', star space, Grp 2 (plus dot), Eol],
     rseq [chr CHR ''['', Grp 1 (Alt (oneof ''xX'') space), chr CHR '']'',
           star space, Grp 2 (plus dot), Eol]]"

text \<open>
  \<open>_build_date_patterns\<close>; the last two are compiled with \<open>re.IGNORECASE\<close>:
  \<^item> \<open>\d{1,2}[/-]\d{1,2}[/-]\d{2,4}\<close>
  \<^item> \<open>\d{4}[/-]\d{1,2}[/-]\d{1,2}\<close>
  \<^item> \<open>(?:Jan|Feb|Mar|Apr|May|Jun|Jul|Aug|Sep|Oct|Nov|Dec)[a-z]*\s+\d{1,2},?\s+\d{4}\<close>
  \<^item> \<open>\d{1,2}\s+(?:Jan|Feb|Mar|Apr|May|Jun|Jul|Aug|Sep|Oct|Nov|Dec)[a-z]*\s+\d{4}\<close>
\<close>

definition month_name :: regex where
  "month_name = Seq (alts (map ilit [''Jan'', ''Feb'', ''Mar'', ''Apr'', ''May'', ''Jun'',
                                     ''Jul'', ''Aug'', ''Sep'', ''Oct'', ''Nov'', ''Dec'']))
                    (star alpha)"

definition date_patterns :: "regex list" where
  "date_patterns = [
     rseq [between 1 2 digit, oneof ''/-'', between 1 2 digit, oneof ''/-'', between 2 4 digit],
     rseq [times 4 digit, oneof ''/-'', between 1 2 digit, oneof ''/-'', between 1 2 digit],
     rseq [month_name, plus space, between 1 2 digit, opt (chr CHR '',''), plus space, times 4 digit],
     rseq [between 1 2 digit, plus space, month_name, plus space, times 4 digit]]"

text \<open>\<open>\$[\d,]+(?:\.\d{2})?|\d+(?:,\d{3})*(?:\.\d{2})?\s*(?:USD|EUR|GBP|dollars?)\<close>\<close>

definition cents :: regex where
  "cents = opt (Seq (chr CHR ''.'') (times 2 digit))"

definition currency_pattern :: regex where
  "currency_pattern =
     Alt (rseq [chr CHR ''$'', plus (Cls (\<lambda>c. is_digit c \<or> c = CHR '','')), cents])
         (rseq [plus digit, star (Seq (chr CHR '','') (times 3 digit)), cents, star space,
                alts [lit ''USD'', lit ''EUR'', lit ''GBP'', Seq (lit ''dollar'') (opt (chr CHR ''s''))]])"

text \<open>\<open>[a-zA-Z0-9._%+-]+@[a-zA-Z0-9.-]+\.[a-zA-Z]{2,}\<close>\<close>

definition email_pattern :: regex where
  "email_pattern =
     rseq [plus (Cls (\<lambda>c. is_alpha_ascii c \<or> is_digit c \<or> c \<in> set ''._%+-'')), chr CHR ''@'',
           plus (Cls (\<lambda>c. is_alpha_ascii c \<or> is_digit c \<or> c \<in> set ''.-'')), chr CHR ''.'',
           at_least 2 alpha]"

text \<open>\<open>(?:\+?1[-.\s]?)?\(?\d{3}\)?[-.\s]?\d{3}[-.\s]?\d{4}\<close>\<close>

definition phone_sep :: regex where
  "phone_sep = opt (Cls (\<lambda>c. c \<in> set ''-.'' \<or> py_isspace c))"

definition phone_pattern :: regex where
  "phone_pattern =
     rseq [opt (rseq [opt (chr CHR ''+''), chr CHR ''1'', phone_sep]),
           opt (chr CHR ''(''), times 3 digit, opt (chr CHR '')''), phone_sep,
           times 3 digit, phone_sep, times 4 digit]"

text \<open>\<open>\d{3}[-\s]?\d{2}[-\s]?\d{4}\<close>\<close>

definition ssn_sep :: regex where
  "ssn_sep = opt (Cls (\<lambda>c. c = CHR ''-'' \<or> py_isspace c))"

definition ssn_pattern :: regex where
  "ssn_pattern = rseq [times 3 digit, ssn_sep, times 2 digit, ssn_sep, times 4 digit]"

text \<open>The label before a date: \<open>([A-Za-z]+(?:\s+[A-Za-z]+)?)\s*[:\-]?\s*$\<close>\<close>

definition date_label_pattern :: regex where
  "date_label_pattern =
     Seq (Grp 1 (Seq (plus alpha) (opt (Seq (plus space) (plus alpha)))))
         (rseq [star space, opt (oneof '':-''), star space, EndS])"

text \<open>
  The checkbox patterns of \<open>_extract_checkboxes\<close> (no flags), each with its
  \<open>is_checked\<close> and the number of its last group. The ballot boxes of the third and
  fourth pattern, and the check marks, are outside the modelled code points:
  \<^item> \<open>\[([xX])\]\s*(.+?)(?:\n|$)\<close>, checked
  \<^item> \<open>\[\s*\]\s*(.+?)(?:\n|$)\<close>, unchecked
  \<^item> a ballot box with check, then \<open>\s*(.+?)(?:\n|$)\<close>, checked
  \<^item> a ballot box, then \<open>\s*(.+?)(?:\n|$)\<close>, unchecked
  \<^item> \<open>\(([xX])\)\s*(.+?)(?:\n|$)\<close>, checked
  \<^item> \<open>\(\s*\)\s*(.+?)(?:\n|$)\<close>, unchecked
\<close>

definition line_end :: regex where
  "line_end = Alt (chr newline) EndS"

definition checkbox_patterns :: "(regex \<times> bool \<times> nat) list" where
  "checkbox_patterns = [
     (rseq [chr CHR ''['', Grp 1 (oneof ''xX''), chr CHR '']'', star space,
            Grp 2 (plus_lazy dot), line_end], True, 2),
     (rseq [chr CHR ''['', star space, chr CHR '']'', star space,
            Grp 1 (plus_lazy dot), line_end], False, 1),
     (rseq [beyond_latin1, star space, Grp 1 (plus_lazy dot), line_end], True, 1),
     (rseq [beyond_latin1, star space, Grp 1 (plus_lazy dot), line_end], False, 1),
     (rseq [chr CHR ''('', Grp 1 (oneof ''xX''), chr CHR '')'', star space,
            Grp 2 (plus_lazy dot), line_end], True, 2),
     (rseq [chr CHR ''('', star space, chr CHR '')'', star space,
            Grp 1 (plus_lazy dot), line_end], False, 1)]"

subsection \<open>The functions\<close>

text \<open>\<open>_normalize_field_name\<close>: \<open>' '.join(name.split())\<close>, then \<open>strip\<close>.\<close>

definition normalize_field_name :: "string \<Rightarrow> string" where
  "normalize_field_name name = py_strip (py_join '' '' (py_split name))"

definition generic_names :: "string list" where
  "generic_names = [''a'', ''b'', ''c'', ''i'', ''ii'', ''iii'', ''the'', ''and'', ''or'']"

text \<open>\<open>str.isdigit\<close> (the superscript digits included) and \<open>int\<close> on such a string.\<close>

definition py_isdigit :: "string \<Rightarrow> bool" where
  "py_isdigit s \<longleftrightarrow> s \<noteq> [] \<and> list_all (\<lambda>c. is_digit c \<or> c \<in> set [CHR 0xB2, CHR 0xB3, CHR 0xB9]) s"

definition digit_val :: "char \<Rightarrow> nat" where
  "digit_val c = (case map_of (zip ''0123456789'' [0, 1, 2, 3, 4, 5, 6, 7, 8, 9]) c of
                    Some d \<Rightarrow> d | None \<Rightarrow> 0)"

definition nat_of_digits :: "string \<Rightarrow> nat" where
  "nat_of_digits s = foldl (\<lambda>n c. 10 * n + digit_val c) 0 s"

text \<open>
  \<open>int(s)\<close> for a string that is \<open>isdigit\<close>, or a minus sign followed by one:
  \<open>ValueError\<close> when a character is not a decimal digit.
\<close>

definition py_int :: "string \<Rightarrow> py_error + int" where
  "py_int s =
     (let (neg, ds) = (case s of c # cs \<Rightarrow> if c = CHR ''-'' then (True, cs) else (False, s)
                                | [] \<Rightarrow> (False, s))
      in if ds \<noteq> [] \<and> list_all is_digit ds
         then Inr (if neg then - int (nat_of_digits ds) else int (nat_of_digits ds))
         else Inl ValueError)"

text \<open>
  \<open>_process_value\<close>. \<open>py_float s\<close> is Python's \<open>float(s)\<close>, \<open>None\<close> when it raises
  \<open>ValueError\<close>; it is a parameter of the model. Each \<open>except ValueError: pass\<close> of
  the source is the \<open>None\<close> or \<open>Inl\<close> branch that falls through.
\<close>

definition process_number :: "(string \<Rightarrow> rat option) \<Rightarrow> string \<Rightarrow> pyvalue" where
  "process_number py_float v =
     (if CHR ''.'' \<in> set v then
        (case py_float (filter (\<lambda>c. c \<noteq> CHR '','') v) of
           Some f \<Rightarrow> VFloat f
         | None \<Rightarrow> VStr v)
      else if py_isdigit v \<or> (prefix ''-'' v \<and> py_isdigit (tl v)) then
        (case py_int (filter (\<lambda>c. c \<noteq> CHR '','') v) of
           Inr n \<Rightarrow> VInt n
         | Inl e \<Rightarrow> VStr v)
      else VStr v)"

definition process_after_currency :: "(string \<Rightarrow> rat option) \<Rightarrow> string \<Rightarrow> pyvalue" where
  "process_after_currency py_float v =
     (if list_ex (\<lambda>p. re_match p v \<noteq> None) date_patterns then VDate v
      else if py_lower v \<in> set [''yes'', ''no'', ''true'', ''false'', ''y'', ''n'']
        then VBool (py_lower v \<in> set [''yes'', ''true'', ''y''])
      else process_number py_float v)"

definition process_value :: "(string \<Rightarrow> rat option) \<Rightarrow> string \<Rightarrow> pyvalue" where
  "process_value py_float value0 =
     (let v = py_strip value0 in
      if re_match currency_pattern v \<noteq> None then
        (case py_float (filter (\<lambda>c. is_digit c \<or> c = CHR ''.'') v) of
           Some f \<Rightarrow> VCurrency f v
         | None \<Rightarrow> process_after_currency py_float v)
      else process_after_currency py_float v)"

text \<open>The body of the inner loop of \<open>parse\<close> for one match \<open>(match[0], match[1])\<close>.\<close>

definition parse_match :: "(string \<Rightarrow> rat option) \<Rightarrow> (string \<times> pyvalue) list \<Rightarrow> string \<times> string
    \<Rightarrow> (string \<times> pyvalue) list" where
  "parse_match py_float flds m =
     (let name = normalize_field_name (fst m);
          v = py_strip (snd m)
      in if length v > 500 then flds
         else if py_lower name \<in> set generic_names then flds
         else if name \<noteq> [] \<and> v \<noteq> [] then dict_set flds name (process_value py_float v)
         else flds)"

definition parse_patterns :: "(string \<Rightarrow> rat option) \<Rightarrow> string \<Rightarrow> (string \<times> pyvalue) list" where
  "parse_patterns py_float text =
     fold (\<lambda>pattern flds. fold (\<lambda>m acc. parse_match py_float acc m) (findall2 pattern text) flds)
          patterns []"

text \<open>\<open>enumerate(xs, 1)\<close>.\<close>

definition enumerate1 :: "'a list \<Rightarrow> (nat \<times> 'a) list" where
  "enumerate1 xs = zip [1..<Suc (length xs)] xs"

text \<open>The e-mail and phone parts of \<open>_extract_special_fields\<close>.\<close>

definition numbered_fields :: "string \<Rightarrow> string list \<Rightarrow> (string \<times> pyvalue) list \<Rightarrow> (string \<times> pyvalue) list" where
  "numbered_fields name found flds =
     (if found = [] then flds
      else if length found = 1 then dict_set flds name (VStr (found ! 0))
      else fold (\<lambda>(i, x) acc. dict_set acc (name @ '' '' @ str_nat i) (VStr x)) (enumerate1 found) flds)"

text \<open>The SSN part: every match is stored masked, \<open>'XXX-XX-' + ssn[-4:]\<close>.\<close>

definition mask_ssn :: "string \<Rightarrow> string" where
  "mask_ssn ssn = ''XXX-XX-'' @ drop (length ssn - 4) ssn"

definition ssn_fields :: "string list \<Rightarrow> (string \<times> pyvalue) list \<Rightarrow> (string \<times> pyvalue) list" where
  "ssn_fields ssns flds =
     fold (\<lambda>(i, ssn) acc.
             dict_set acc (if length ssns = 1 then ''SSN'' else ''SSN '' @ str_nat i)
                      (VStr (mask_ssn ssn)))
          (enumerate1 ssns) flds"

text \<open>The dates with context: the label is searched in the 50 characters before the date.\<close>

definition date_context :: "string \<Rightarrow> rmatch \<Rightarrow> string" where
  "date_context text m =
     (let start = m_start m - 50
      in py_strip (take (m_start m - start) (drop start text)))"

definition date_field :: "string \<Rightarrow> (string \<times> pyvalue) list \<Rightarrow> rmatch \<Rightarrow> (string \<times> pyvalue) list" where
  "date_field text flds m =
     (case re_search date_label_pattern (date_context text m) of
        None \<Rightarrow> flds
      | Some label_match \<Rightarrow>
          let label = py_strip (group_text label_match 1)
          in if py_lower label \<notin> set [''on'', ''of'', ''the'', ''at'', ''by'']
             then dict_set flds (label @ '' Date'') (VStr (m_text m))
             else flds)"

definition date_fields :: "string \<Rightarrow> (string \<times> pyvalue) list \<Rightarrow> (string \<times> pyvalue) list" where
  "date_fields text flds =
     fold (\<lambda>pattern acc. fold (\<lambda>m acc'. date_field text acc' m) (finditer pattern text) acc)
          date_patterns flds"

definition extract_special_fields :: "string \<Rightarrow> (string \<times> pyvalue) list" where
  "extract_special_fields text =
     date_fields text
       (ssn_fields (findall0 ssn_pattern text)
          (numbered_fields ''Phone'' (findall0 phone_pattern text)
             (numbered_fields ''Email'' (findall0 email_pattern text) [])))"

text \<open>\<open>_extract_checkboxes\<close>: the items of one pattern, then the two aggregate fields.\<close>

definition checkbox_items :: "string \<Rightarrow> regex \<times> bool \<times> nat \<Rightarrow> string list" where
  "checkbox_items text pc =
     (case pc of (pattern, is_checked, last_group) \<Rightarrow>
        filter (\<lambda>item. item \<noteq> [] \<and> length item < 100)
               (map (\<lambda>m. py_strip (group_text m last_group)) (finditer pattern text)))"

definition extract_checkboxes :: "string \<Rightarrow> (string \<times> pyvalue) list" where
  "extract_checkboxes text =
     (let checked_items = concat (map (checkbox_items text) (filter (\<lambda>pc. fst (snd pc)) checkbox_patterns));
          unchecked_items = concat (map (checkbox_items text) (filter (\<lambda>pc. \<not> fst (snd pc)) checkbox_patterns))
      in (if checked_items \<noteq> [] then [(''Selected Options'', VList checked_items)] else []) @
         (if unchecked_items \<noteq> [] then [(''Unselected Options'', VList unchecked_items)] else []))"

text \<open>\<open>FieldParser.parse\<close>.\<close>

definition parse :: "(string \<Rightarrow> rat option) \<Rightarrow> string \<Rightarrow> (string \<times> pyvalue) list" where
  "parse py_float text =
     (if text = [] then []
      else dict_update (dict_update (parse_patterns py_float text) (extract_special_fields text))
                       (extract_checkboxes text))"

text \<open>The invariant of a FieldMap key: non-empty, trimmed, and not a generic name.\<close>

definition valid_key :: "string \<Rightarrow> bool" where
  "valid_key k \<longleftrightarrow> k \<noteq> [] \<and> py_strip k = k \<and> k \<notin> set generic_names"

text \<open>Every key of a field dictionary satisfies the invariant.\<close>

definition keys_ok :: "(string \<times> 'v) list \<Rightarrow> bool" where
  "keys_ok d \<longleftrightarrow> list_all (\<lambda>e. valid_key (fst e)) d"

text \<open>No pattern of the parser has a match in the text.\<close>

definition no_matches :: "string \<Rightarrow> bool" where
  "no_matches text \<longleftrightarrow>
     (\<forall>p \<in> set patterns. finditer p text = []) \<and>
     finditer email_pattern text = [] \<and>
     finditer phone_pattern text = [] \<and>
     finditer ssn_pattern text = [] \<and>
     (\<forall>p \<in> set date_patterns. finditer p text = []) \<and>
     (\<forall>pc \<in> set checkbox_patterns. finditer (fst pc) text = [])"

text \<open>\<open>str(v)\<close> of a stored string, and whether a field value shows the text \<open>s\<close> verbatim.\<close>

fun value_shows :: "string \<Rightarrow> pyvalue \<Rightarrow> bool" where
  "value_shows s (VStr t) = py_in s t"
| "value_shows s (VCurrency f raw) = py_in s raw"
| "value_shows s (VDate t) = py_in s t"
| "value_shows s (VList xs) = list_ex (py_in s) xs"
| "value_shows s v = False"

section \<open>Documents\<close>

text \<open>
  The part of a \<open>FormDocument\<close> the question answering code reads: its field
  dictionary, raw text, raw tables, schema type and file path.
\<close>

record document =
  doc_fields :: "(string \<times> pyvalue) list"
  doc_raw_text :: string
  doc_tables :: "string list list list"
  doc_schema_type :: "string option"
  doc_file_path :: string

text \<open>
  Sets of terms are kept as lists: \<open>len(a & b)\<close> counts the distinct elements of \<open>a\<close>
  that occur in \<open>b\<close>, \<open>len(a)\<close> counts the distinct elements of \<open>a\<close>.
\<close>

definition overlap :: "string list \<Rightarrow> string list \<Rightarrow> nat" where
  "overlap a b = length (filter (\<lambda>t. t \<in> set b) (remdups a))"

definition set_len :: "string list \<Rightarrow> nat" where
  "set_len a = length (remdups a)"

text \<open>\<open>s.split(sep)\<close> for a non-empty separator.\<close>

fun split_sep_aux :: "string \<Rightarrow> nat \<Rightarrow> string \<Rightarrow> string \<Rightarrow> string list" where
  "split_sep_aux sep skip cur [] = [cur]"
| "split_sep_aux sep (Suc k) cur (c # cs) = split_sep_aux sep k cur cs"
| "split_sep_aux sep 0 cur (c # cs) =
     (if prefix sep (c # cs) then cur # split_sep_aux sep (length sep - 1) [] cs
      else split_sep_aux sep 0 (cur @ [c]) cs)"

definition py_split_sep :: "string \<Rightarrow> string \<Rightarrow> string list" where
  "py_split_sep sep s = split_sep_aux sep 0 [] s"

text \<open>\<open>xs[:k]\<close> for an integer \<open>k\<close>: a negative \<open>k\<close> counts from the end.\<close>

definition py_slice_to :: "int \<Rightarrow> 'a list \<Rightarrow> 'a list" where
  "py_slice_to k xs = (if 0 \<le> k then take (nat k) xs else take (length xs - nat (- k)) xs)"

text \<open>
  \<open>re.split\<close> for a pattern without groups whose matches are never empty: the pieces
  of the subject between the matches.
\<close>

fun split_at :: "string \<Rightarrow> nat \<Rightarrow> rmatch list \<Rightarrow> string list" where
  "split_at s off [] = [drop off s]"
| "split_at s off (m # later) = take (m_start m - off) (drop off s) # split_at s (m_end m) later"

definition re_split :: "regex \<Rightarrow> string \<Rightarrow> string list" where
  "re_split r s = split_at s 0 (finditer r s)"

text \<open>The term patterns \<open>\b\w+\b\<close> and \<open>\b\w{3,}\b\<close>.\<close>

definition word_pattern :: regex where
  "word_pattern = rseq [WordB, plus wordc, WordB]"

definition term_pattern :: regex where
  "term_pattern = rseq [WordB, at_least 3 wordc, WordB]"

section \<open>Context retriever (qa/retriever.py)\<close>










section \<open>Question answering engine (qa/qa_engine.py)\<close>

record query_result =
  qr_question :: string
  qr_answer :: string
  qr_confidence :: rat
  qr_source_fields :: "string list"
  qr_context :: string

text \<open>
  The engine: \<open>top_k\<close> from the configuration, the flag \<open>_use_embeddings\<close>, and the
  embedding model. \<open>eng_embedder\<close> is \<open>None\<close> when \<open>sentence_transformers\<close> cannot be
  imported; otherwise it is the ranking \<open>_semantic_search\<close> computes from the
  embeddings of the question and the chunks (the chunks it keeps, or nothing when an
  exception is caught). \<open>eng_str\<close> is Python's \<open>str\<close> on field values,
  \<open>eng_float\<close> is \<open>float\<close> on strings (\<open>None\<close> for \<open>ValueError\<close>) and
  \<open>eng_money\<close> is the format \<open>{:,.2f}\<close>.
\<close>

record engine =
  eng_top_k :: int
  eng_use_embeddings :: bool
  eng_embedder :: "(string \<Rightarrow> string list \<Rightarrow> string list) option"
  eng_str :: "pyvalue \<Rightarrow> string"
  eng_float :: "string \<Rightarrow> rat option"
  eng_money :: "rat \<Rightarrow> string"

definition stop_words :: "string list" where
  "stop_words = [''the'', ''a'', ''an'', ''is'', ''are'', ''was'', ''were'', ''what'', ''who'',
     ''where'', ''when'', ''how'', ''which'', ''this'', ''that'', ''of'', ''in'',
     ''on'', ''for'', ''to'', ''from'', ''with'', ''by'']"

text \<open>\<open>_calculate_relevance\<close>.\<close>

definition calculate_relevance :: "string \<Rightarrow> string \<Rightarrow> string \<Rightarrow> rat" where
  "calculate_relevance question field v =
     (let question_terms = filter (\<lambda>t. t \<notin> set stop_words) (findall0 word_pattern question);
          field_terms = findall0 word_pattern field;
          value_terms = findall0 word_pattern v;
          field_overlap = of_nat (overlap question_terms field_terms) / of_nat (max 1 (set_len question_terms));
          value_overlap = of_nat (overlap question_terms value_terms) / of_nat (max 1 (set_len question_terms))
      in max field_overlap (value_overlap * (1 / 2)))"

text \<open>The rendering \<open>f"{field}: {value}"\<close>.\<close>

definition field_line :: "engine \<Rightarrow> string \<times> pyvalue \<Rightarrow> string" where
  "field_line eng fv = fst fv @ '': '' @ eng_str eng (snd fv)"

text \<open>\<open>_semantic_search\<close>.\<close>

definition semantic_search :: "engine \<Rightarrow> string \<Rightarrow> document \<Rightarrow> string list" where
  "semantic_search eng question doc =
     (case eng_embedder eng of
        None \<Rightarrow> []
      | Some rank \<Rightarrow>
          let paragraphs = py_split_sep [newline, newline] (doc_raw_text doc);
              chunks = map (field_line eng) (doc_fields doc) @
                       map py_strip (filter (\<lambda>p. py_strip p \<noteq> []) paragraphs)
          in if chunks = [] then [] else rank question chunks)"

text \<open>\<open>_extract_relevant_snippets\<close>; the sentences are split at \<open>[.!?\n]+\<close>.\<close>

definition sentence_split :: regex where
  "sentence_split = plus (Cls (\<lambda>c. c \<in> set ''.!?'' \<or> c = newline))"

definition extract_relevant_snippets :: "string \<Rightarrow> string \<Rightarrow> string list" where
  "extract_relevant_snippets question text =
     (if text = [] then []
      else
        let question_terms = findall0 term_pattern (py_lower question);
            sentences = map py_strip (re_split sentence_split text);
            snippets = filter (\<lambda>sentence.
                \<not> (length sentence < 10 \<or> length sentence > 500) \<and>
                overlap question_terms (findall0 term_pattern (py_lower sentence)) \<ge> 2) sentences
        in take 3 snippets)"

text \<open>\<open>_retrieve_context\<close>: the context string and the source fields.\<close>

definition retrieve_context :: "engine \<Rightarrow> string \<Rightarrow> document \<Rightarrow> string \<times> string list" where
  "retrieve_context eng question doc =
     (let question_lower = py_lower question;
          relevant = filter (\<lambda>fv. calculate_relevance question_lower (py_lower (fst fv))
                                    (py_lower (eng_str eng (snd fv))) > 3 / 10) (doc_fields doc);
          source_fields = map fst relevant;
          context_parts = map (field_line eng) relevant;
          context_parts = (if eng_use_embeddings eng \<and> length context_parts < 3
                           then context_parts @ semantic_search eng question doc
                           else context_parts);
          context_parts = context_parts @ extract_relevant_snippets question (doc_raw_text doc)
      in (py_join [newline] (py_slice_to (eng_top_k eng) context_parts), source_fields))"

subsection \<open>The answers by intent\<close>

text \<open>\<open>any(w in s for w in ws)\<close>.\<close>

definition any_in :: "string list \<Rightarrow> string \<Rightarrow> bool" where
  "any_in ws s = list_ex (\<lambda>w. py_in w s) ws"

text \<open>The first element of a list that satisfies a test, as a \<open>for\<close> loop with \<open>return\<close> finds it.\<close>

definition first_where :: "('a \<Rightarrow> bool) \<Rightarrow> 'a list \<Rightarrow> 'a option" where
  "first_where P xs = (case filter P xs of [] \<Rightarrow> None | x # _ \<Rightarrow> Some x)"

text \<open>\<open>f"The {field} is: {value}"\<close>.\<close>

definition the_field_is :: "engine \<Rightarrow> string \<times> pyvalue \<Rightarrow> string" where
  "the_field_is eng fv = ''The '' @ fst fv @ '' is: '' @ eng_str eng (snd fv)"

definition based_on_form :: "string \<Rightarrow> string" where
  "based_on_form context = ''Based on the form: '' @ take 200 context"

text \<open>
  \<open>_answer_what_question\<close>. The document is \<open>None\<close> when the caller passes the list of
  documents of \<open>answer_multiple\<close>, which has no attribute \<open>fields\<close>. The subject patterns
  are \<open>what is (?:the )?(.+?)(?:\?|$)\<close>, and the same with \<open>what's\<close> and \<open>what are\<close>.
\<close>

definition what_pattern :: "string \<Rightarrow> regex" where
  "what_pattern start =
     rseq [lit start, opt (lit ''the ''), Grp 1 (plus_lazy dot), Alt (chr CHR ''?'') EndS]"

definition what_subject :: "string \<Rightarrow> string option" where
  "what_subject question =
     (case List.map_filter (\<lambda>p. re_search p question)
             [what_pattern ''what is '', what_pattern ''what's '', what_pattern ''what are ''] of
        [] \<Rightarrow> None
      | m # _ \<Rightarrow> Some (py_strip (group_text m 1)))"

definition answer_from_context :: "string \<Rightarrow> string \<times> rat" where
  "answer_from_context context =
     (case first_where (\<lambda>line. CHR '':'' \<in> set line) (py_split_sep [newline] context) of
        Some line \<Rightarrow> (py_strip line, 7 / 10)
      | None \<Rightarrow> (take 200 context, 1 / 2))"

definition answer_what_question :: "engine \<Rightarrow> string \<Rightarrow> string \<Rightarrow> document option \<Rightarrow> string \<times> rat" where
  "answer_what_question eng question context doc =
     (case (what_subject question, doc) of
        (Some subject, Some d) \<Rightarrow>
          if subject \<noteq> [] then
            (case first_where (\<lambda>fv. py_in subject (py_lower (fst fv)) \<or> py_in (py_lower (fst fv)) subject)
                    (doc_fields d) of
               Some fv \<Rightarrow> (the_field_is eng fv, 9 / 10)
             | None \<Rightarrow> answer_from_context context)
          else answer_from_context context
      | _ \<Rightarrow> answer_from_context context)"

text \<open>
  \<open>_answer_quantity_question\<close>. The numbers are the matches of
  \<open>\$?[\d,]+(?:\.\d{2})?\<close>; each is parsed by \<open>float\<close> after the dollar sign and the
  commas are removed, and a match that does not parse is skipped.
\<close>

definition number_pattern :: regex where
  "number_pattern = rseq [opt (chr CHR ''$''), plus (Cls (\<lambda>c. is_digit c \<or> c = CHR '','')), cents]"

definition parse_number :: "engine \<Rightarrow> string \<Rightarrow> rat option" where
  "parse_number eng n = eng_float eng (filter (\<lambda>c. c \<noteq> CHR ''$'' \<and> c \<noteq> CHR '','') n)"

fun max_list :: "rat list \<Rightarrow> rat" where
  "max_list [] = 0"
| "max_list [x] = x"
| "max_list (x # y # ys) = max x (max_list (y # ys))"

fun min_list :: "rat list \<Rightarrow> rat" where
  "min_list [] = 0"
| "min_list [x] = x"
| "min_list (x # y # ys) = min x (min_list (y # ys))"

definition total_line :: "string \<Rightarrow> string option" where
  "total_line context = first_where (\<lambda>line. py_in ''total'' (py_lower line)) (py_split_sep [newline] context)"

definition largest_amount :: "engine \<Rightarrow> string list \<Rightarrow> string \<Rightarrow> string \<times> rat" where
  "largest_amount eng numbers context =
     (let parsed_numbers = List.map_filter (parse_number eng) numbers in
      if parsed_numbers \<noteq> []
      then (''The amount is: $'' @ eng_money eng (max_list parsed_numbers), 7 / 10)
      else (based_on_form context, 1 / 2))"

definition answer_quantity_question :: "engine \<Rightarrow> string \<Rightarrow> string \<Rightarrow> string \<times> rat" where
  "answer_quantity_question eng question context =
     (let numbers = findall0 number_pattern context in
      if numbers \<noteq> [] then
        (if py_in ''total'' question then
           (case total_line context of
              Some line \<Rightarrow> (py_strip line, 17 / 20)
            | None \<Rightarrow> largest_amount eng numbers context)
         else largest_amount eng numbers context)
      else (based_on_form context, 1 / 2))"

text \<open>\<open>_answer_who_question\<close> and \<open>_answer_where_question\<close> differ in their keywords only.\<close>

definition answer_by_keywords :: "string list \<Rightarrow> engine \<Rightarrow> string \<Rightarrow> document option \<Rightarrow> string \<times> rat" where
  "answer_by_keywords keywords eng context doc =
     (case (case doc of None \<Rightarrow> None
            | Some d \<Rightarrow> first_where (\<lambda>fv. any_in keywords (py_lower (fst fv))) (doc_fields d)) of
        Some fv \<Rightarrow> (the_field_is eng fv, 9 / 10)
      | None \<Rightarrow>
          (case first_where (\<lambda>line. any_in keywords (py_lower line)) (py_split_sep [newline] context) of
             Some line \<Rightarrow> (py_strip line, 7 / 10)
           | None \<Rightarrow> (based_on_form context, 1 / 2)))"

definition answer_who_question :: "engine \<Rightarrow> string \<Rightarrow> document option \<Rightarrow> string \<times> rat" where
  "answer_who_question =
     answer_by_keywords [''name'', ''applicant'', ''employee'', ''patient'', ''customer'', ''client'']"

definition answer_where_question :: "engine \<Rightarrow> string \<Rightarrow> document option \<Rightarrow> string \<times> rat" where
  "answer_where_question =
     answer_by_keywords [''address'', ''location'', ''city'', ''state'', ''zip'', ''street'']"

text \<open>
  \<open>_answer_when_question\<close>: the first three date patterns, searched with
  \<open>re.IGNORECASE\<close> (which only matters for the month names).
\<close>

definition answer_when_question :: "engine \<Rightarrow> string \<Rightarrow> document option \<Rightarrow> string \<times> rat" where
  "answer_when_question eng context doc =
     (case List.map_filter (\<lambda>p. re_search p context) (take 3 date_patterns) of
        m # _ \<Rightarrow> (''The date is: '' @ m_text m, 4 / 5)
      | [] \<Rightarrow>
          (case (case doc of None \<Rightarrow> None
                 | Some d \<Rightarrow> first_where (\<lambda>fv. py_in ''date'' (py_lower (fst fv))) (doc_fields d)) of
             Some fv \<Rightarrow> (the_field_is eng fv, 9 / 10)
           | None \<Rightarrow> (based_on_form context, 1 / 2)))"

text \<open>\<open>_generate_answer\<close>.\<close>

definition no_information :: string where
  "no_information = ''I couldn't find relevant information to answer this question.''"

definition what_intent :: "string \<Rightarrow> bool" where
  "what_intent question_lower = any_in [''what is'', ''what's'', ''what are''] question_lower"

definition quantity_intent :: "string \<Rightarrow> bool" where
  "quantity_intent question_lower =
     any_in [''how much'', ''how many'', ''total'', ''sum'', ''amount''] question_lower"

definition generate_answer :: "engine \<Rightarrow> string \<Rightarrow> string \<Rightarrow> document option \<Rightarrow> string \<times> rat" where
  "generate_answer eng question context doc =
     (if context = [] then (no_information, 0)
      else
        let question_lower = py_lower question in
        if what_intent question_lower then answer_what_question eng question_lower context doc
        else if quantity_intent question_lower then answer_quantity_question eng question_lower context
        else if any_in [''who'', ''whose''] question_lower then answer_who_question eng context doc
        else if any_in [''when'', ''date''] question_lower then answer_when_question eng context doc
        else if any_in [''where'', ''address'', ''location''] question_lower
          then answer_where_question eng context doc
        else (''Based on the form: '' @ take 300 context @ ''...'', 3 / 5))"

text \<open>\<open>QAEngine.answer\<close>.\<close>

definition answer :: "engine \<Rightarrow> string \<Rightarrow> document \<Rightarrow> query_result" where
  "answer eng question doc =
     (case retrieve_context eng question doc of (context, source_fields) \<Rightarrow>
        case generate_answer eng question context (Some doc) of (ans, conf) \<Rightarrow>
          \<lparr>qr_question = question, qr_answer = ans, qr_confidence = conf,
           qr_source_fields = source_fields,
           qr_context = (if context \<noteq> [] then take 500 context else [])\<rparr>)"

subsection \<open>Cross-form analysis\<close>

text \<open>
  The numbers \<open>cross_form_analysis\<close> collects from a field value: an \<open>int\<close> or
  \<open>float\<close> as it is (a \<open>bool\<close> is an \<open>int\<close>), and for a dictionary with a \<open>value\<close>
  entry \<open>float\<close> of that entry, skipped when it raises.
\<close>

fun numeric_of :: "(string \<Rightarrow> rat option) \<Rightarrow> pyvalue \<Rightarrow> rat option" where
  "numeric_of py_float (VInt n) = Some (of_int n)"
| "numeric_of py_float (VFloat f) = Some f"
| "numeric_of py_float (VBool b) = Some (if b then 1 else 0)"
| "numeric_of py_float (VCurrency f raw) = Some f"
| "numeric_of py_float (VDate s) = py_float s"
| "numeric_of py_float (VStr s) = None"
| "numeric_of py_float (VList xs) = None"

text \<open>\<open>all_fields\<close>: for every field name, its values with their sources, in document order.\<close>

definition dict_append :: "(string \<times> 'e list) list \<Rightarrow> string \<Rightarrow> 'e \<Rightarrow> (string \<times> 'e list) list" where
  "dict_append d k e =
     (case map_of d k of
        None \<Rightarrow> d @ [(k, [e])]
      | Some es \<Rightarrow> dict_set d k (es @ [e]))"

definition collect_fields :: "document list \<Rightarrow> (string \<times> (pyvalue \<times> string) list) list" where
  "collect_fields documents =
     fold (\<lambda>doc acc. fold (\<lambda>fv acc'. dict_append acc' (fst fv) (snd fv, doc_file_path doc))
                          (doc_fields doc) acc)
          documents []"

record field_stats =
  fs_count :: nat
  fs_sum :: rat
  fs_average :: rat
  fs_min :: rat
  fs_max :: rat

definition summarize :: "(string \<Rightarrow> rat option) \<Rightarrow> string \<times> (pyvalue \<times> string) list
    \<Rightarrow> (string \<times> field_stats) option" where
  "summarize py_float entry =
     (let numeric_values = List.map_filter (\<lambda>v. numeric_of py_float (fst v)) (snd entry) in
      if numeric_values \<noteq> []
      then Some (fst entry,
                 \<lparr>fs_count = length numeric_values, fs_sum = sum_list numeric_values,
                  fs_average = sum_list numeric_values / of_nat (length numeric_values),
                  fs_min = min_list numeric_values, fs_max = max_list numeric_values\<rparr>)
      else None)"

text \<open>
  The entries \<open>total_documents\<close>, \<open>common_fields\<close>, \<open>schema_types\<close> and
  \<open>field_summary\<close> of the result of \<open>cross_form_analysis\<close>. The insights and the
  answer are computed afterwards and only read these entries.
\<close>

record analysis =
  an_total_documents :: nat
  an_common_fields :: "string list"
  an_schema_types :: "string option list"
  an_field_summary :: "(string \<times> field_stats) list"

definition cross_form_analysis :: "(string \<Rightarrow> rat option) \<Rightarrow> document list \<Rightarrow> analysis" where
  "cross_form_analysis py_float documents =
     (let all_fields = collect_fields documents in
      \<lparr>an_total_documents = length documents,
       an_common_fields = map fst (filter (\<lambda>fv. length (snd fv) = length documents) all_fields),
       an_schema_types = map doc_schema_type documents,
       an_field_summary = List.map_filter (summarize py_float) all_fields\<rparr>)"


text \<open>
  \<open>float\<close> on a string of decimal digits with at most one point, as a table for the
  examples: the value of the decimal, and \<open>None\<close> (\<open>ValueError\<close>) for the empty string,
  a lone point, or any other character.
\<close>

definition float_of_decimal :: "string \<Rightarrow> rat option" where
  "float_of_decimal s =
     (let ip = takeWhile is_digit s; r = dropWhile is_digit s in
      if r = [] then (if ip = [] then None else Some (of_nat (nat_of_digits ip)))
      else if hd r = CHR ''.'' \<and> list_all is_digit (tl r) \<and> (ip \<noteq> [] \<or> tl r \<noteq> [])
        then Some (of_nat (nat_of_digits ip) + of_nat (nat_of_digits (tl r)) / 10 ^ length (tl r))
      else None)"





text \<open>
  An engine for the examples: the default \<open>top_k\<close>, no embedding model installed,
  strings rendered as they are, \<open>float\<close> on plain decimals.
\<close>

definition example_engine :: engine where
  "example_engine =
     \<lparr>eng_top_k = 5, eng_use_embeddings = True, eng_embedder = None,
      eng_str = (\<lambda>v. case v of VStr s \<Rightarrow> s | _ \<Rightarrow> []),
      eng_float = float_of_decimal,
      eng_money = (\<lambda>r. [])\<rparr>"

definition empty_document :: document where
  "empty_document =
     \<lparr>doc_fields = [], doc_raw_text = [], doc_tables = [], doc_schema_type = None,
      doc_file_path = ''empty.txt''\<rparr>"

section \<open>Schema detector: validation against a type without expected fields\<close>

lemma get_expected_fields_unknown:
  "ty \<notin> {''w2'', ''insurance_claim'', ''job_application'', ''loan_application''}
   \<Longrightarrow> get_expected_fields ty = []"
  by (simp add: get_expected_fields_def expected_fields_def)

text \<open>
  C10: for every field map and every schema type other than w2, insurance_claim,
  job_application and loan_application (unknown identifiers included),
  \<open>validate_fields\<close> returns completeness 1.0 and an empty list of missing fields.
\<close>

theorem validate_fields_no_catalog:
  "ty \<notin> {''w2'', ''insurance_claim'', ''job_application'', ''loan_application''}
   \<Longrightarrow> validate_fields ty flds = (1, [])"
  by (simp add: validate_fields_def get_expected_fields_unknown)

theorem validate_fields_no_catalog_witness:
  "''contract'' \<notin> {''w2'', ''insurance_claim'', ''job_application'', ''loan_application''}
   \<and> validate_fields ''contract'' [(''Party'', ''Acme''), (''Effective Date'', ''today'')] = (1, [])"
  using validate_fields_no_catalog [of "''contract''" "[(''Party'', ''Acme''), (''Effective Date'', ''today'')]"]
  by simp

section \<open>Schema detector: the best candidate\<close>

lemma cand_score_pos:
  assumes "is_candidate txt d" "1 \<le> required_indicators d"
  shows "indicators d \<noteq> [] \<and> 0 < cand_score txt d"
proof -
  have m: "matched_of txt d \<noteq> []" using assms by (auto simp: is_candidate_def)
  then have "indicators d \<noteq> []" by (auto simp: matched_of_def)
  with m show ?thesis by (simp add: cand_score_def)
qed

lemma first_best_snoc_keep:
  assumes "first_best txt seen ty d" "is_candidate txt d' \<longrightarrow> cand_score txt d' \<le> cand_score txt d"
  shows "first_best txt (seen @ [(ty', d')]) ty d"
proof -
  from assms(1) obtain pre post where h: "seen = pre @ (ty, d) # post" "is_candidate txt d"
    "\<forall>e \<in> set pre. is_candidate txt (snd e) \<longrightarrow> cand_score txt (snd e) < cand_score txt d"
    "\<forall>e \<in> set post. is_candidate txt (snd e) \<longrightarrow> cand_score txt (snd e) \<le> cand_score txt d"
    unfolding first_best_def by blast
  have "seen @ [(ty', d')] = pre @ (ty, d) # (post @ [(ty', d')])" using h(1) by simp
  moreover have "\<forall>e \<in> set (post @ [(ty', d')]). is_candidate txt (snd e) \<longrightarrow> cand_score txt (snd e) \<le> cand_score txt d"
    using h(4) assms(2) by auto
  ultimately show ?thesis unfolding first_best_def using h(2,3) by blast
qed

lemma first_best_snoc_new:
  assumes "first_best txt seen ty d" "is_candidate txt d'" "cand_score txt d < cand_score txt d'"
  shows "first_best txt (seen @ [(ty', d')]) ty' d'"
proof -
  from assms(1) obtain pre post where h: "seen = pre @ (ty, d) # post" "is_candidate txt d"
    "\<forall>e \<in> set pre. is_candidate txt (snd e) \<longrightarrow> cand_score txt (snd e) < cand_score txt d"
    "\<forall>e \<in> set post. is_candidate txt (snd e) \<longrightarrow> cand_score txt (snd e) \<le> cand_score txt d"
    unfolding first_best_def by blast
  have "\<forall>e \<in> set seen. is_candidate txt (snd e) \<longrightarrow> cand_score txt (snd e) < cand_score txt d'"
    using h assms(3) by fastforce
  then show ?thesis unfolding first_best_def using assms(2)
    by (intro exI[of _ seen] exI[of _ "[]"]) simp
qed

lemma first_best_snoc_first:
  assumes "\<forall>e \<in> set seen. \<not> is_candidate txt (snd e)" "is_candidate txt d'"
  shows "first_best txt (seen @ [(ty', d')]) ty' d'"
  unfolding first_best_def using assms
  by (intro exI[of _ seen] exI[of _ "[]"]) simp

lemma detect_loop_inv:
  assumes "\<forall>e \<in> set rest. 1 \<le> required_indicators (snd e)" "loop_inv txt seen st"
  shows "\<exists>st'. detect_loop txt rest st = Inr st' \<and> loop_inv txt (seen @ rest) st'"
  using assms
proof (induction rest arbitrary: seen st)
  case Nil
  then show ?case by (cases st) simp
next
  case (Cons e rest)
  obtain ty d where e: "e = (ty, d)" by (cases e)
  obtain bm bs where st: "st = (bm, bs)" by (cases st)
  have req: "1 \<le> required_indicators d" using Cons.prems(1) e by simp
  have rest: "\<forall>e \<in> set rest. 1 \<le> required_indicators (snd e)" using Cons.prems(1) by simp
  have app: "seen @ e # rest = (seen @ [e]) @ rest" by simp
  show ?case
  proof (cases "is_candidate txt d")
    case False
    then have step: "detect_loop txt (e # rest) st = detect_loop txt rest st"
      by (simp add: e st is_candidate_def Let_def)
    have "loop_inv txt (seen @ [e]) st"
      using Cons.prems(2) False unfolding loop_inv_def e
      by (auto intro: first_best_snoc_keep)
    from Cons.IH[OF rest this] show ?thesis unfolding step app .
  next
    case True
    from cand_score_pos[OF True req] have ne: "indicators d \<noteq> []" and pos: "0 < cand_score txt d" by auto
    show ?thesis
    proof (cases "bs < cand_score txt d")
      case better: True
      have step: "detect_loop txt (e # rest) st = detect_loop txt rest (Some (mk_match txt ty d), cand_score txt d)"
        using True ne better by (simp add: e st is_candidate_def Let_def cand_score_def mk_match_def)
      have "loop_inv txt (seen @ [e]) (Some (mk_match txt ty d), cand_score txt d)"
        using Cons.prems(2) True better unfolding loop_inv_def e st
        by (auto intro: first_best_snoc_new first_best_snoc_first)
      from Cons.IH[OF rest this] show ?thesis unfolding step app .
    next
      case worse: False
      have step: "detect_loop txt (e # rest) st = detect_loop txt rest st"
        using True ne worse by (simp add: e st is_candidate_def Let_def cand_score_def)
      have "fst st \<noteq> None" using Cons.prems(2) worse pos unfolding loop_inv_def st by auto
      then obtain ty0 d0 where fb: "first_best txt seen ty0 d0" and bm: "bm = Some (mk_match txt ty0 d0)"
        and bs: "bs = cand_score txt d0"
        using Cons.prems(2) unfolding loop_inv_def st by auto
      have "first_best txt (seen @ [(ty, d)]) ty0 d0"
        using first_best_snoc_keep[OF fb] worse bs by (simp add: not_less)
      then have "loop_inv txt (seen @ [e]) st"
        unfolding loop_inv_def e st using bm bs by auto
      from Cons.IH[OF rest this] show ?thesis unfolding step app .
    qed
  qed
qed

lemma schemas_required: "\<forall>e \<in> set schemas. 1 \<le> required_indicators (snd e)"
  by (simp add: schemas_def)

lemma first_best_candidate: "first_best txt cat ty d \<Longrightarrow> \<exists>e \<in> set cat. is_candidate txt (snd e)"
  unfolding first_best_def by force

lemma detect_loop_schemas:
  "\<exists>st'. detect_loop txt schemas (None, 0) = Inr st' \<and> loop_inv txt schemas st'"
  using detect_loop_inv[OF schemas_required, of "txt" "[]" "(None, 0)"]
  by (simp add: loop_inv_def)

text \<open>
  C2 (amended): for the empty text \<open>detect\<close> reports no type, whatever the fields. For
  every non-empty text and optional field map, with \<open>txt\<close> the searched text: a type is a
  candidate only when its matched-indicator count reaches its required minimum; when no
  type is a candidate nothing is detected; otherwise the match returned is the first
  catalog entry whose score (matched count over indicator count) is maximal among the
  candidates, its confidence is \<open>min 1 (1.2 * score)\<close>, and \<open>detect\<close> reports its type
  unless that confidence is below 0.5.
\<close>

theorem detect_first_best:
  "(text = [] \<longrightarrow> detect str_of text flds = Inr None) \<and>
   (text \<noteq> [] \<longrightarrow>
     (let txt = search_text str_of text flds in
      if \<exists>e \<in> set schemas. is_candidate txt (snd e)
      then \<exists>ty d. first_best txt schemas ty d \<and>
             detect_with_confidence str_of text flds = Inr (Some (mk_match txt ty d)) \<and>
             detect str_of text flds =
               Inr (if confidence (mk_match txt ty d) < 1 / 2 then None else Some ty)
      else detect_with_confidence str_of text flds = Inr None \<and>
           detect str_of text flds = Inr None))"
proof (intro conjI impI)
  assume "text = []"
  then show "detect str_of text flds = Inr None"
    by (simp add: detect_def detect_with_confidence_def)
next
  assume ne: "text \<noteq> []"
  define stext where "stext = search_text str_of text flds"
  obtain bm bs where r: "detect_loop stext schemas (None, 0) = Inr (bm, bs)"
    and inv: "loop_inv stext schemas (bm, bs)"
    using detect_loop_schemas[of "stext"] by auto
  have dwc: "detect_with_confidence str_of text flds = Inr bm"
    using ne r by (simp add: detect_with_confidence_def stext_def)
  show "let txt = search_text str_of text flds in
      if \<exists>e \<in> set schemas. is_candidate txt (snd e)
      then \<exists>ty d. first_best txt schemas ty d \<and>
             detect_with_confidence str_of text flds = Inr (Some (mk_match txt ty d)) \<and>
             detect str_of text flds =
               Inr (if confidence (mk_match txt ty d) < 1 / 2 then None else Some ty)
      else detect_with_confidence str_of text flds = Inr None \<and>
           detect str_of text flds = Inr None"
  proof (cases "\<exists>e \<in> set schemas. is_candidate stext (snd e)")
    case True
    with inv obtain ty d where fb: "first_best stext schemas ty d"
      and bm: "bm = Some (mk_match stext ty d)"
      unfolding loop_inv_def by auto
    have ty: "schema_type (mk_match stext ty d) = ty" by (simp add: mk_match_def)
    have "detect str_of text flds =
        Inr (if confidence (mk_match stext ty d) < 1 / 2 then None else Some ty)"
      unfolding detect_def dwc bm by (simp add: ty not_less del: One_nat_def)
    with True fb dwc bm show ?thesis unfolding stext_def[symmetric] Let_def by auto
  next
    case False
    with inv have "bm = None" unfolding loop_inv_def by (auto dest: first_best_candidate)
    with False dwc show ?thesis unfolding stext_def[symmetric] Let_def by (simp add: detect_def)
  qed
qed

lemma w2_example_detect:
  "detect id ''Form W-2'' (Some [(''Title'', ''Wage and Tax Statement EIN'')]) = Inr (Some ''w2'')"
  by code_simp

theorem detect_first_best_witness:
  "''Form W-2'' \<noteq> [] \<and>
   detect id ''Form W-2'' (Some [(''Title'', ''Wage and Tax Statement EIN'')]) = Inr (Some ''w2'') \<and>
   (let txt = search_text id ''Form W-2'' (Some [(''Title'', ''Wage and Tax Statement EIN'')]) in
      if \<exists>e \<in> set schemas. is_candidate txt (snd e)
      then \<exists>ty d. first_best txt schemas ty d \<and>
             detect_with_confidence id ''Form W-2'' (Some [(''Title'', ''Wage and Tax Statement EIN'')])
               = Inr (Some (mk_match txt ty d)) \<and>
             detect id ''Form W-2'' (Some [(''Title'', ''Wage and Tax Statement EIN'')]) =
               Inr (if confidence (mk_match txt ty d) < 1 / 2 then None else Some ty)
      else detect_with_confidence id ''Form W-2'' (Some [(''Title'', ''Wage and Tax Statement EIN'')]) = Inr None \<and>
           detect id ''Form W-2'' (Some [(''Title'', ''Wage and Tax Statement EIN'')]) = Inr None)"
proof -
  have h: "''Form W-2'' \<noteq> []" by simp
  note c = detect_first_best [of "''Form W-2''" id "Some [(''Title'', ''Wage and Tax Statement EIN'')]",
      THEN conjunct2, rule_format, OF h]
  from h w2_example_detect c show ?thesis by (intro conjI)
qed

text \<open>
  The claim as stated fails on the empty text: with the fields
  \<open>{"Form W-2": "Wage and Tax Statement EIN"}\<close> the searched text matches four of the
  nine w2 indicators, so w2 is a candidate of confidence above 0.5, yet nothing is detected.
\<close>

theorem detect_empty_text_counterexample:
  "is_candidate (search_text id '''' (Some [(''Form W-2'', ''Wage and Tax Statement EIN'')]))
     (snd (schemas ! 0)) \<and>
   fst (schemas ! 0) = ''w2'' \<and>
   1 / 2 \<le> confidence (mk_match (search_text id '''' (Some [(''Form W-2'', ''Wage and Tax Statement EIN'')]))
     ''w2'' (snd (schemas ! 0))) \<and>
   detect_with_confidence id '''' (Some [(''Form W-2'', ''Wage and Tax Statement EIN'')]) = Inr None \<and>
   detect id '''' (Some [(''Form W-2'', ''Wage and Tax Statement EIN'')]) = Inr None"
  by code_simp

section \<open>Table parser: normalization\<close>

lemma set_tl_subset: "set (tl xs) \<subseteq> set xs"
  by (cases xs) auto

lemma py_max_Max: "xs \<noteq> [] \<Longrightarrow> py_max xs = Max (set xs)"
  by (induction xs rule: py_max.induct) simp_all

lemma py_max_ge: "x \<in> set xs \<Longrightarrow> x \<le> py_max xs"
  by (induction xs rule: py_max.induct) auto

lemma length_pad_row:
  "length clean_row \<le> max_cols \<Longrightarrow> length (pad_row max_cols clean_row) = max_cols"
  by (simp add: pad_row_def)

lemma normalize_table_lengths:
  assumes "row \<in> set (normalize_table table)"
  shows "length row = max_row_length table"
proof -
  have ne: "table \<noteq> []" using assms by (auto simp: normalize_table_def)
  then have m: "py_max (map length table) = max_row_length table"
    by (simp add: py_max_Max max_row_length_def)
  from assms ne obtain r where r: "r \<in> set table"
    and row: "row = pad_row (py_max (map length table)) (map clean_cell r)"
    by (auto simp: normalize_table_def Let_def)
  have "length (map clean_cell r) \<le> py_max (map length table)"
    using r by (auto intro: py_max_ge)
  then show ?thesis unfolding row by (simp add: length_pad_row m)
qed

lemma normalize_table_length [simp]: "length (normalize_table table) = length table"
  by (simp add: normalize_table_def Let_def)

lemma normalize_table_Nil [simp]: "normalize_table table = [] \<longleftrightarrow> table = []"
  by (simp add: normalize_table_def Let_def)

lemma parse_table_Some:
  assumes "raw_table \<noteq> []"
  shows "\<exists>pt. parse_table float_ok raw_table = Some pt \<and>
     has_header pt = fst (detect_headers float_ok (normalize_table raw_table)) \<and>
     rows pt = (if has_header pt then tl (normalize_table raw_table) else normalize_table raw_table) \<and>
     (\<not> has_header pt \<longrightarrow> headers pt = column_names (length (normalize_table raw_table ! 0)))"
  using assms
  by (cases "detect_headers float_ok (normalize_table raw_table)")
     (auto simp: parse_table_def Let_def)

lemma parse_table_normalized:
  assumes "raw_table \<noteq> []"
  shows "\<exists>pt. parse_table float_ok raw_table = Some pt \<and> table_normalized raw_table pt"
proof -
  let ?n = "normalize_table raw_table"
  from parse_table_Some[OF assms] obtain pt where pt: "parse_table float_ok raw_table = Some pt"
    and rws: "rows pt = (if has_header pt then tl ?n else ?n)"
    and hdr: "\<not> has_header pt \<longrightarrow> headers pt = column_names (length (?n ! 0))"
    by blast
  have n: "?n \<noteq> []" using assms by simp
  have "set (tl ?n) \<subseteq> set ?n" by (rule set_tl_subset)
  then have "set (rows pt) \<subseteq> set ?n" using rws by (simp split: if_splits)
  then have 1: "\<forall>row \<in> set (rows pt). length row = max_row_length raw_table"
    by (auto dest: normalize_table_lengths)
  have "?n ! 0 \<in> set ?n" using n by (simp add: nth_mem)
  then have "length (?n ! 0) = max_row_length raw_table" by (rule normalize_table_lengths)
  with hdr 1 pt show ?thesis by (simp add: table_normalized_def)
qed

lemma parse_tables_Cons:
  "parse_tables float_ok (t # ts) =
     (case parse_table float_ok t of None \<Rightarrow> parse_tables float_ok ts
      | Some pt \<Rightarrow> pt # parse_tables float_ok ts)"
  by (simp add: parse_tables_def List.map_filter_simps split: option.split)

lemma parse_table_Nil [simp]: "parse_table float_ok [] = None"
  by (simp add: parse_table_def)

text \<open>
  C3: \<open>parse\<close> yields one ParsedTable for each non-empty raw table, in order. Every row
  of it has the maximum row length of that raw table, and when \<open>has_header\<close> is false
  its headers are exactly \<open>Column 1\<close>, ..., \<open>Column N\<close> for that maximum N.
\<close>

theorem parse_tables_normalized:
  "list_all2 table_normalized (filter (\<lambda>t. t \<noteq> []) raw_tables) (parse_tables float_ok raw_tables)"
proof (induction raw_tables)
  case Nil
  show ?case by (simp add: parse_tables_def List.map_filter_simps)
next
  case (Cons t ts)
  show ?case
  proof (cases "t = []")
    case True
    with Cons show ?thesis by (simp add: parse_tables_Cons)
  next
    case False
    from parse_table_normalized[OF False] obtain pt where
      "parse_table float_ok t = Some pt" "table_normalized t pt" by blast
    with Cons False show ?thesis by (simp add: parse_tables_Cons)
  qed
qed

lemma example_ragged_parse:
  "parse_tables (\<lambda>s. s = ''1'') [[[''a'', ''b'', ''c''], ['' x '']], [], [[''1''], [''2'', ''3'']]]
   = [\<lparr>headers = [''Column 1'', ''Column 2'', ''Column 3''],
       rows = [[''a'', ''b'', ''c''], [''x'', '''', '''']],
       column_count = 3, row_count = 2, has_header = False, table_type = Some ''general''\<rparr>,
      \<lparr>headers = [''Column 1'', ''Column 2''],
       rows = [[''1'', ''''], [''2'', ''3'']],
       column_count = 2, row_count = 2, has_header = False, table_type = Some ''general''\<rparr>]"
  by code_simp

theorem parse_tables_normalized_witness:
  "list_all2 table_normalized
     [[[''a'', ''b'', ''c''], ['' x '']], [[''1''], [''2'', ''3'']]]
     [\<lparr>headers = [''Column 1'', ''Column 2'', ''Column 3''],
       rows = [[''a'', ''b'', ''c''], [''x'', '''', '''']],
       column_count = 3, row_count = 2, has_header = False, table_type = Some ''general''\<rparr>,
      \<lparr>headers = [''Column 1'', ''Column 2''],
       rows = [[''1'', ''''], [''2'', ''3'']],
       column_count = 2, row_count = 2, has_header = False, table_type = Some ''general''\<rparr>]"
  using parse_tables_normalized
    [of "[[[''a'', ''b'', ''c''], ['' x '']], [], [[''1''], [''2'', ''3'']]]" "\<lambda>s. s = ''1''"]
  unfolding example_ragged_parse by simp

section \<open>Table parser: tables with fewer than two rows\<close>

lemma detect_headers_short: "length table < 2 \<Longrightarrow> detect_headers float_ok table = (False, [])"
  by (simp add: detect_headers_def)

text \<open>
  C9: for every raw table with fewer than two rows \<open>parse\<close> detects no header. An empty
  table is skipped; a single-row table gives one ParsedTable with \<open>has_header = False\<close>,
  the synthetic \<open>Column N\<close> headers, and the (cleaned) input row as its only data row.
\<close>

theorem parse_short_table_no_header:
  "length raw_table < 2 \<Longrightarrow>
   (raw_table = [] \<longrightarrow> parse_tables float_ok [raw_table] = []) \<and>
   (raw_table \<noteq> [] \<longrightarrow>
      (\<exists>pt. parse_tables float_ok [raw_table] = [pt] \<and>
         has_header pt = False \<and>
         headers pt = column_names (max_row_length raw_table) \<and>
         rows pt = [map clean_cell (raw_table ! 0)] \<and>
         length (rows pt) = length raw_table))"
proof (intro conjI impI)
  assume "raw_table = []"
  then show "parse_tables float_ok [raw_table] = []"
    by (simp add: parse_tables_def List.map_filter_simps)
next
  assume len: "length raw_table < 2" and ne: "raw_table \<noteq> []"
  then obtain row where raw: "raw_table = [row]"
    by (cases raw_table) (auto simp: less_Suc_eq)
  have n: "normalize_table raw_table = [map clean_cell row]"
    by (simp add: raw normalize_table_def pad_row_def)
  have d: "detect_headers float_ok [map clean_cell row] = (False, [])"
    by (simp add: detect_headers_short)
  have m: "max_row_length raw_table = length row"
    by (simp add: raw max_row_length_def)
  have "parse_table float_ok raw_table =
      Some \<lparr>headers = column_names (length row), rows = [map clean_cell row],
            column_count = length (column_names (length row)), row_count = 1,
            has_header = False,
            table_type = infer_table_type (column_names (length row)) [map clean_cell row]\<rparr>"
    using ne by (simp add: parse_table_def n d Let_def)
  then show "\<exists>pt. parse_tables float_ok [raw_table] = [pt] \<and>
         has_header pt = False \<and>
         headers pt = column_names (max_row_length raw_table) \<and>
         rows pt = [map clean_cell (raw_table ! 0)] \<and>
         length (rows pt) = length raw_table"
    using m by (simp add: parse_tables_Cons parse_tables_def List.map_filter_simps raw)
qed

theorem parse_short_table_no_header_witness:
  "length [[''Name'', ''Total'']] < 2 \<and> [[''Name'', ''Total'']] \<noteq> [] \<and>
   (\<exists>pt. parse_tables (\<lambda>s. False) [[[''Name'', ''Total'']]] = [pt] \<and>
         has_header pt = False \<and>
         headers pt = column_names (max_row_length [[''Name'', ''Total'']]) \<and>
         rows pt = [map clean_cell ([[''Name'', ''Total'']] ! 0)] \<and>
         length (rows pt) = length [[''Name'', ''Total'']])"
  using parse_short_table_no_header [of "[[''Name'', ''Total'']]" "\<lambda>s. False"]
  by simp

section \<open>Field parser: the keys of a FieldMap\<close>

lemma last_dropWhile_ne: "dropWhile P xs \<noteq> [] \<Longrightarrow> last (dropWhile P xs) = last xs"
  by (induction xs) (auto split: if_splits)

lemma dropWhile_hd: "xs \<noteq> [] \<Longrightarrow> \<not> P (hd xs) \<Longrightarrow> dropWhile P xs = xs"
  by (cases xs) auto

lemma py_strip_fix:
  assumes "s = [] \<or> (\<not> py_isspace (hd s) \<and> \<not> py_isspace (last s))"
  shows "py_strip s = s"
proof (cases s)
  case Nil
  then show ?thesis by (simp add: py_strip_def)
next
  case (Cons c cs)
  with assms have h: "\<not> py_isspace c" and l: "\<not> py_isspace (last s)" by auto
  have 1: "dropWhile py_isspace s = s" using h Cons by simp
  have "rev s \<noteq> []" using Cons by simp
  moreover have "hd (rev s) = last s" using Cons by (simp add: hd_rev)
  ultimately have 2: "dropWhile py_isspace (rev s) = rev s" using l
    by (intro dropWhile_hd) simp_all
  show ?thesis by (simp add: py_strip_def 1 2)
qed

lemma py_strip_ends:
  "py_strip s = [] \<or> (\<not> py_isspace (hd (py_strip s)) \<and> \<not> py_isspace (last (py_strip s)))"
proof (cases "dropWhile py_isspace s = []")
  case True
  show ?thesis unfolding py_strip_def True by simp
next
  case False
  let ?t = "dropWhile py_isspace s"
  let ?v = "dropWhile py_isspace (rev ?t)"
  have ht: "\<not> py_isspace (hd ?t)" using False by (rule hd_dropWhile)
  have "last (rev ?t) = hd ?t" using False by (simp add: last_rev)
  then have "\<not> (\<forall>x \<in> set (rev ?t). py_isspace x)"
    using ht False by (metis last_in_set rev_is_Nil_conv)
  then have v: "?v \<noteq> []" by (simp add: dropWhile_eq_Nil_conv)
  have hv: "\<not> py_isspace (hd ?v)" using v by (rule hd_dropWhile)
  have lv: "last ?v = hd ?t" using last_dropWhile_ne[OF v] False by (simp add: last_rev)
  have "py_strip s = rev ?v" by (simp add: py_strip_def)
  moreover have "hd (rev ?v) = last ?v" using v by (simp add: hd_rev)
  moreover have "last (rev ?v) = hd ?v" using v by (simp add: last_rev)
  ultimately show ?thesis using v hv lv ht by simp
qed

lemma py_strip_idem: "py_strip (py_strip s) = py_strip s"
  using py_strip_ends[of s] by (intro py_strip_fix) auto

lemma py_strip_Cons:
  assumes "\<not> py_isspace c"
  shows "py_strip (c # s) \<noteq> [] \<and> hd (py_strip (c # s)) = c"
proof -
  let ?v = "dropWhile py_isspace (rev (c # s))"
  have "c \<in> set (rev (c # s))" by simp
  then have v: "?v \<noteq> []" using assms by (auto simp: dropWhile_eq_Nil_conv simp del: set_rev rev.simps)
  have "last ?v = last (rev (c # s))" using v by (rule last_dropWhile_ne)
  then have lv: "last ?v = c" by simp
  have s: "py_strip (c # s) = rev ?v" using assms by (simp add: py_strip_def)
  have "hd (rev ?v) = last ?v" using v by (simp add: hd_rev)
  with v lv s show ?thesis by simp
qed

lemma generic_names_lower: "g \<in> set generic_names \<Longrightarrow> py_lower g = g"
  by (auto simp: generic_names_def py_lower_def py_lower_char_def upper_chars_def lower_chars_def)

lemma generic_names_short: "g \<in> set generic_names \<Longrightarrow> length g \<le> 3"
  by (auto simp: generic_names_def)

lemma valid_key_long:
  assumes "\<not> py_isspace (hd k)" "\<not> py_isspace (last k)" "3 < length k"
  shows "valid_key k"
proof -
  have "k \<noteq> []" using assms(3) by auto
  moreover have "py_strip k = k" using assms by (intro py_strip_fix) simp
  moreover have "k \<notin> set generic_names" using assms(3) generic_names_short[of k] by auto
  ultimately show ?thesis by (simp add: valid_key_def)
qed

lemma valid_key_normalized:
  assumes "normalize_field_name x \<noteq> []" "py_lower (normalize_field_name x) \<notin> set generic_names"
  shows "valid_key (normalize_field_name x)"
proof -
  have "py_strip (normalize_field_name x) = normalize_field_name x"
    by (simp add: normalize_field_name_def py_strip_idem)
  moreover have "normalize_field_name x \<notin> set generic_names"
    using assms(2) generic_names_lower by force
  ultimately show ?thesis using assms(1) by (simp add: valid_key_def)
qed

lemma keys_ok_Nil [simp]: "keys_ok []"
  by (simp add: keys_ok_def)

lemma keys_ok_dict_set: "keys_ok d \<Longrightarrow> valid_key k \<Longrightarrow> keys_ok (dict_set d k v)"
  unfolding keys_ok_def by (induction d) auto

lemma keys_ok_fold:
  assumes "\<And>x acc. x \<in> set xs \<Longrightarrow> keys_ok acc \<Longrightarrow> keys_ok (f x acc)" "keys_ok d"
  shows "keys_ok (fold f xs d)"
  using assms by (induction xs arbitrary: d) auto

lemma keys_ok_dict_update:
  fixes d other :: "(string \<times> 'a) list"
  shows "keys_ok d \<Longrightarrow> keys_ok other \<Longrightarrow> keys_ok (dict_update d other)"
  unfolding dict_update_def
proof (rule keys_ok_fold)
  fix x :: "string \<times> 'a" and acc :: "(string \<times> 'a) list"
  assume o: "keys_ok other" and x: "x \<in> set other" and acc: "keys_ok acc"
  obtain k v where kv: "x = (k, v)" by (cases x)
  have "valid_key k" using o x kv by (auto simp: keys_ok_def list_all_iff)
  then show "keys_ok ((\<lambda>(k, v) acc. dict_set acc k v) x acc)"
    unfolding kv prod.case using acc by (intro keys_ok_dict_set)
qed

lemma keys_ok_parse_match: "keys_ok flds \<Longrightarrow> keys_ok (parse_match py_float flds m)"
  by (auto simp: parse_match_def Let_def intro!: keys_ok_dict_set valid_key_normalized)

lemma keys_ok_parse_patterns: "keys_ok (parse_patterns py_float text)"
  unfolding parse_patterns_def
  by (intro keys_ok_fold keys_ok_parse_match) simp_all

lemma str_nat_digits: "str_nat n \<noteq> [] \<and> (\<forall>c \<in> set (str_nat n). is_digit c)"
proof (induction n rule: str_nat.induct)
  case (1 n)
  have d: "\<And>k. k < 10 \<Longrightarrow> is_digit (digit_char k)"
  proof -
    fix k :: nat assume "k < 10"
    then have "k \<in> {0,1,2,3,4,5,6,7,8,9}" by auto
    then show "is_digit (digit_char k)" by (auto simp: is_digit_def digit_char_def)
  qed
  show ?case
  proof (cases "n < 10")
    case True
    then show ?thesis by (subst str_nat.simps, subst (2) str_nat.simps) (simp add: d)
  next
    case False
    with 1 have ih: "str_nat (n div 10) \<noteq> [] \<and> (\<forall>c \<in> set (str_nat (n div 10)). is_digit c)" by simp
    have "str_nat n = str_nat (n div 10) @ [digit_char (n mod 10)]"
      using False by (subst str_nat.simps) simp
    with ih d[of "n mod 10"] show ?thesis by auto
  qed
qed

lemma digit_not_space: "is_digit c \<Longrightarrow> \<not> py_isspace c"
  by (auto simp: is_digit_def py_isspace_def)

lemma valid_key_numbered:
  assumes "name \<noteq> []" "\<not> py_isspace (hd name)" "3 \<le> length name"
  shows "valid_key (name @ '' '' @ str_nat i)"
proof (rule valid_key_long)
  show "\<not> py_isspace (hd (name @ '' '' @ str_nat i))" using assms by simp
  have "last (name @ '' '' @ str_nat i) = last (str_nat i)" using str_nat_digits[of i] by simp
  moreover have "last (str_nat i) \<in> set (str_nat i)" using str_nat_digits[of i] by simp
  ultimately show "\<not> py_isspace (last (name @ '' '' @ str_nat i))"
    using str_nat_digits[of i] digit_not_space by metis
  show "3 < length (name @ '' '' @ str_nat i)" using assms by simp
qed

lemma keys_ok_numbered_fields:
  assumes "\<not> py_isspace (hd name)" "\<not> py_isspace (last name)" "3 < length name" "keys_ok flds"
  shows "keys_ok (numbered_fields name found flds)"
proof -
  have ne: "name \<noteq> []" using assms(3) by auto
  have v: "valid_key name" using assms by (intro valid_key_long) auto
  have "keys_ok (fold (\<lambda>(i, x) acc. dict_set acc (name @ '' '' @ str_nat i) (VStr x)) (enumerate1 found) flds)"
  proof (rule keys_ok_fold)
    fix x :: "nat \<times> string" and acc :: "(string \<times> pyvalue) list"
    assume acc: "keys_ok acc"
    obtain i y where x: "x = (i, y)" by (cases x)
    have "valid_key (name @ '' '' @ str_nat i)" using ne assms by (intro valid_key_numbered) auto
    then show "keys_ok ((\<lambda>(i, x) acc. dict_set acc (name @ '' '' @ str_nat i) (VStr x)) x acc)"
      unfolding x prod.case using acc by (intro keys_ok_dict_set)
  qed (rule assms(4))
  then show ?thesis using v assms(4) by (auto simp: numbered_fields_def intro: keys_ok_dict_set)
qed

lemma valid_key_SSN: "valid_key ''SSN''"
  by (simp add: valid_key_def generic_names_def py_strip_def py_isspace_def)

lemma keys_ok_ssn_fields: "keys_ok flds \<Longrightarrow> keys_ok (ssn_fields ssns flds)"
  unfolding ssn_fields_def
proof (rule keys_ok_fold)
  fix x :: "nat \<times> string" and acc :: "(string \<times> pyvalue) list"
  assume acc: "keys_ok acc"
  obtain i y where x: "x = (i, y)" by (cases x)
  have "valid_key (''SSN'' @ '' '' @ str_nat i)"
    by (intro valid_key_numbered) (simp_all add: py_isspace_def)
  then have "valid_key (if length ssns = 1 then ''SSN'' else ''SSN '' @ str_nat i)"
    using valid_key_SSN by simp
  then show "keys_ok ((\<lambda>(i, ssn) acc.
             dict_set acc (if length ssns = 1 then ''SSN'' else ''SSN '' @ str_nat i)
                      (VStr (mask_ssn ssn))) x acc)"
    unfolding x prod.case using acc by (intro keys_ok_dict_set)
qed

lemma keys_ok_extract_checkboxes: "keys_ok (extract_checkboxes text)"
  by (simp add: extract_checkboxes_def Let_def keys_ok_def valid_key_def generic_names_def
        py_strip_def py_isspace_def)


lemma rep_ms_inv:
  assumes step: "\<And>s s'. s' \<in> set (m s) \<Longrightarrow> Q s s'"
    and refl: "\<And>s. Q s s"
    and trans: "\<And>a b c. Q a b \<Longrightarrow> Q b c \<Longrightarrow> Q a c"
  shows "s' \<in> set (rep_ms m g mn mx fuel s) \<Longrightarrow> Q s s'"
proof (induction fuel arbitrary: s mn mx)
  case 0
  then show ?case using refl by (auto split: if_splits)
next
  case (Suc fuel)
  from Suc.prems have "s' = s \<or> (\<exists>s1 \<in> set (m s). s' \<in> set (rep_ms m g (mn - 1) (dec_max mx) fuel s1))"
    by (auto simp: Let_def split: if_splits)
  then show ?case
  proof
    assume "s' = s" then show ?thesis using refl by simp
  next
    assume "\<exists>s1 \<in> set (m s). s' \<in> set (rep_ms m g (mn - 1) (dec_max mx) fuel s1)"
    then obtain s1 where 1: "s1 \<in> set (m s)" and 2: "s' \<in> set (rep_ms m g (mn - 1) (dec_max mx) fuel s1)"
      by blast
    from trans[OF step[OF 1] Suc.IH[OF 2]] show ?thesis .
  qed
qed

lemma ms_Cls_step: "s1 \<in> set (ms (Cls P) st) \<Longrightarrow> \<exists>c. st_rest st = c # st_rest s1 \<and> P c"
  by (cases "st_rest st") (auto split: if_splits)

lemma ms_suffix: "st' \<in> set (ms r st) \<Longrightarrow> suffix (st_rest st') (st_rest st)"
proof (induction r arbitrary: st st')
  case (Cls P)
  then obtain c where "st_rest st = c # st_rest st'"
    by (blast dest: ms_Cls_step)
  then show ?case by (simp add: suffix_Cons)
next
  case (Seq r1 r2)
  from Seq.prems obtain s1 where 1: "s1 \<in> set (ms r1 st)" and 2: "st' \<in> set (ms r2 s1)"
    by auto
  from Seq.IH(2)[OF 2] Seq.IH(1)[OF 1] show ?case by (rule suffix_order.trans)
next
  case (Rep mn mx g r)
  have "st' \<in> set (rep_ms (\<lambda>s. ms r s) g mn mx (length (st_rest st)) st)" using Rep.prems by simp
  then show ?case
    by (rule rep_ms_inv[where Q = "\<lambda>a b. suffix (st_rest b) (st_rest a)", rotated 3])
       (auto intro: Rep.IH suffix_order.trans)
qed (auto split: list.splits if_splits simp: Let_def)

lemma ms_groupless: "groupless r \<Longrightarrow> st' \<in> set (ms r st) \<Longrightarrow> st_caps st' = st_caps st"
proof (induction r arbitrary: st st')
  case (Cls P)
  then show ?case by (auto split: list.splits if_splits)
next
  case (Seq r1 r2)
  then show ?case by fastforce
next
  case (Rep mn mx g r)
  have "st' \<in> set (rep_ms (\<lambda>s. ms r s) g mn mx (length (st_rest st)) st)" using Rep.prems by simp
  then show ?case
    by (rule rep_ms_inv[where Q = "\<lambda>a b. st_caps b = st_caps a", rotated 3])
       (use Rep in auto)
qed (auto split: list.splits if_splits simp: Let_def)

lemma rep_ms_Suc_first:
  "s' \<in> set (rep_ms m g (Suc mn) mx fuel s) \<Longrightarrow>
     \<exists>s1 \<in> set (m s). \<exists>fuel'. s' \<in> set (rep_ms m g mn (dec_max mx) fuel' s1)"
  by (cases fuel) (auto simp: Let_def split: if_splits)

lemma plus_Cls_first:
  assumes "st' \<in> set (ms (plus (Cls P)) st)"
  shows "\<exists>c cs. st_rest st = c # cs \<and> P c \<and> suffix (st_rest st') cs"
proof -
  have "st' \<in> set (rep_ms (\<lambda>s. ms (Cls P) s) True (Suc 0) None (length (st_rest st)) st)"
    using assms unfolding plus_def ms.simps by simp
  from rep_ms_Suc_first[OF this] obtain s1 fuel' where 1: "s1 \<in> set (ms (Cls P) st)"
    and 2: "st' \<in> set (rep_ms (\<lambda>s. ms (Cls P) s) True 0 (dec_max None) fuel' s1)"
    by blast
  from 1 obtain c where r: "st_rest st = c # st_rest s1" and P: "P c"
    by (blast dest: ms_Cls_step)
  have "suffix (st_rest st') (st_rest s1)" using 2
    by (rule rep_ms_inv[where Q = "\<lambda>a b. suffix (st_rest b) (st_rest a)", rotated 3])
       (auto intro: ms_suffix suffix_order.trans simp del: ms.simps)
  with P r show ?thesis by simp
qed

lemma consumed_Cons:
  assumes "st_rest st = c # cs" "suffix (st_rest st') cs"
  shows "\<exists>g. consumed st st' = c # g"
proof -
  have "length (st_rest st') \<le> length cs" using assms(2) by (rule suffix_length_le)
  then have "length (st_rest st) - length (st_rest st') = Suc (length cs - length (st_rest st'))"
    using assms(1) by simp
  then show ?thesis by (simp add: consumed_def assms(1))
qed

lemma date_label_group:
  assumes "st' \<in> set (ms date_label_pattern st)"
  shows "\<exists>c g. map_of (st_caps st') 1 = Some (c # g) \<and> is_alpha_ascii c"
proof -
  let ?G = "Seq (plus alpha) (opt (Seq (plus space) (plus alpha)))"
  let ?R = "rseq [star space, opt (oneof '':-''), star space, EndS]"
  from assms obtain s2 where s2: "s2 \<in> set (ms (Grp 1 ?G) st)" and t: "st' \<in> set (ms ?R s2)"
    by (auto simp: date_label_pattern_def)
  from s2 obtain s1 where s1: "s1 \<in> set (ms ?G st)"
    and e: "s2 = s1\<lparr>st_caps := (1, consumed st s1) # st_caps s1\<rparr>" by auto
  from s1 obtain sa where sa: "sa \<in> set (ms (plus alpha) st)"
    and sb: "s1 \<in> set (ms (opt (Seq (plus space) (plus alpha))) sa)" by auto
  from plus_Cls_first[OF sa[unfolded alpha_def]] obtain c cs where
    r: "st_rest st = c # cs" and a: "is_alpha_ascii c" and su: "suffix (st_rest sa) cs" by blast
  have "suffix (st_rest s1) cs" using ms_suffix[OF sb] su by (rule suffix_order.trans)
  from consumed_Cons[OF r this] obtain g where g: "consumed st s1 = c # g" ..
  have "groupless ?R" by (simp add: star_def opt_def oneof_def space_def)
  from ms_groupless[OF this t] have "st_caps st' = st_caps s2" .
  with e g a show ?thesis by simp
qed

lemma match_at_ms:
  "match_at r pos p s = Some (m, st') \<Longrightarrow>
     st' \<in> set (ms r \<lparr>st_prev = p, st_rest = s, st_caps = []\<rparr>) \<and> m_groups m = st_caps st'"
  by (auto simp: match_at_def Let_def split: list.splits)

lemma search_from_ms:
  "search_from r pos p s = Some m \<Longrightarrow>
     \<exists>st st'. st' \<in> set (ms r st) \<and> m_groups m = st_caps st'"
proof (induction s arbitrary: pos p)
  case Nil
  then show ?case by (auto dest: match_at_ms)
next
  case (Cons c cs)
  show ?case
  proof (cases "match_at r pos p (c # cs)")
    case None
    with Cons show ?thesis by simp
  next
    case (Some a)
    obtain m' st' where a: "a = (m', st')" by (cases a)
    with Some Cons.prems have "m' = m" by simp
    with Some a match_at_ms[of r pos p "c # cs" m st'] show ?thesis by blast
  qed
qed

lemma alpha_not_space: "is_alpha_ascii c \<Longrightarrow> \<not> py_isspace c"
  by (auto simp: is_alpha_ascii_def is_upper_ascii_def is_lower_ascii_def py_isspace_def)

lemma keys_ok_date_field: "keys_ok flds \<Longrightarrow> keys_ok (date_field text flds m)"
proof (cases "re_search date_label_pattern (date_context text m)")
  case None
  assume "keys_ok flds"
  with None show ?thesis by (simp add: date_field_def)
next
  case (Some lm)
  assume k: "keys_ok flds"
  from Some obtain st st' where "st' \<in> set (ms date_label_pattern st)" "m_groups lm = st_caps st'"
    unfolding re_search_def by (blast dest: search_from_ms)
  with date_label_group obtain c g where "group lm 1 = Some (c # g)" "is_alpha_ascii c"
    unfolding group_def by metis
  then have gt: "group_text lm 1 = c # g" and ns: "\<not> py_isspace c"
    by (simp_all add: group_text_def alpha_not_space)
  let ?label = "py_strip (group_text lm 1)"
  from py_strip_Cons[OF ns, of g] gt have l: "?label \<noteq> []" "hd ?label = c" by simp_all
  have "valid_key (?label @ '' Date'')"
  proof (rule valid_key_long)
    show "\<not> py_isspace (hd (?label @ '' Date''))" using l ns by simp
    show "\<not> py_isspace (last (?label @ '' Date''))" by (simp add: py_isspace_def)
    show "3 < length (?label @ '' Date'')" by simp
  qed
  with k Some show ?thesis by (simp add: date_field_def Let_def keys_ok_dict_set)
qed

lemma keys_ok_date_fields: "keys_ok flds \<Longrightarrow> keys_ok (date_fields text flds)"
  unfolding date_fields_def
  by (intro keys_ok_fold keys_ok_date_field)

lemma keys_ok_extract_special_fields: "keys_ok (extract_special_fields text)"
  unfolding extract_special_fields_def
  by (intro keys_ok_date_fields keys_ok_ssn_fields keys_ok_numbered_fields)
     (simp_all add: py_isspace_def)

lemma keys_ok_parse: "keys_ok (parse py_float text)"
  by (simp add: parse_def keys_ok_dict_update keys_ok_parse_patterns
      keys_ok_extract_special_fields keys_ok_extract_checkboxes)

lemma fold_no_findall:
  assumes "\<forall>p \<in> set ps. finditer p text = []"
  shows "fold (\<lambda>pattern flds. fold (\<lambda>m acc. parse_match py_float acc m) (findall2 pattern text) flds) ps d = d"
  using assms by (induction ps arbitrary: d) (simp_all add: findall2_def)

lemma fold_no_finditer:
  assumes "\<forall>p \<in> set ps. finditer p text = []"
  shows "fold (\<lambda>pattern acc. fold (\<lambda>m acc'. date_field text acc' m) (finditer pattern text) acc) ps d = d"
  using assms by (induction ps arbitrary: d) simp_all

lemma concat_no_checkbox_items:
  assumes "\<forall>pc \<in> set pcs. finditer (fst pc) text = []"
  shows "concat (map (checkbox_items text) pcs) = []"
  using assms by (induction pcs) (auto simp: checkbox_items_def)

lemma parse_no_matches: "no_matches text \<Longrightarrow> parse py_float text = []"
  unfolding no_matches_def parse_def parse_patterns_def extract_special_fields_def
    extract_checkboxes_def date_fields_def
  by (simp add: fold_no_findall fold_no_finditer concat_no_checkbox_items findall0_def
      numbered_fields_def ssn_fields_def enumerate1_def dict_update_def Let_def)

text \<open>
  C5: \<open>parse\<close> is total: the \<open>ValueError\<close> of \<open>float\<close> and \<open>int\<close> is caught
  inside \<open>_process_value\<close> and nothing else can raise, so the model returns a field
  dictionary for every text and every behaviour of \<open>float\<close>. Every key of that
  dictionary is non-empty, equal to its own \<open>strip()\<close>, and not in the list of generic
  names; the empty text, and any text in which no pattern matches, give the empty
  dictionary.
\<close>

theorem parse_keys_valid:
  "keys_ok (parse py_float text) \<and>
   parse py_float [] = [] \<and>
   (no_matches text \<longrightarrow> parse py_float text = [])"
  by (simp add: keys_ok_parse parse_no_matches) (simp add: parse_def)

lemma parse_example_name:
  "parse py_float ''Name: John'' = [(''Name'', VStr ''John'')]"
  by code_simp

lemma no_matches_example: "no_matches ''hello''"
  unfolding no_matches_def by code_simp

theorem parse_keys_valid_witness:
  "keys_ok [(''Name'', VStr ''John'')] \<and> valid_key ''Name'' \<and>
   no_matches ''hello'' \<and> parse (\<lambda>s. None) ''hello'' = []"
proof -
  have k: "keys_ok (parse (\<lambda>s. None) ''Name: John'')"
    using parse_keys_valid [of "\<lambda>s. None" "''Name: John''"] by blast
  then have k': "keys_ok [(''Name'', VStr ''John'')]" by (simp add: parse_example_name)
  then have v: "valid_key ''Name''" by (simp add: keys_ok_def)
  have e: "parse (\<lambda>s. None) ''hello'' = []"
    using parse_keys_valid [of "\<lambda>s. None" "''hello''"] no_matches_example by blast
  from k' v no_matches_example e show ?thesis by blast
qed

section \<open>Field parser: Social Security numbers\<close>

text \<open>
  C1: every substring of the text that the SSN pattern recognizes should appear in the
  FieldMap of \<open>parse\<close> in the masked form \<open>XXX-XX-dddd\<close> only, and never verbatim in
  a field value. The special extractor does mask every match, but the label/value
  patterns store what follows a label as it is: on the line
  \<open>Employee SSN: 123-45-6789\<close> the pattern recognizes \<open>123-45-6789\<close>, and the FieldMap
  holds the masked \<open>SSN\<close> next to the same digits verbatim under the key
  \<open>Employee SSN\<close>, whatever \<open>float\<close> does.
\<close>

theorem parse_keeps_raw_ssn:
  "findall0 ssn_pattern ''Employee SSN: 123-45-6789'' = [''123-45-6789''] \<and>
   parse py_float ''Employee SSN: 123-45-6789'' =
     [(''Employee SSN'', VStr ''123-45-6789''), (''SSN'', VStr ''XXX-XX-6789'')] \<and>
   list_ex (\<lambda>e. value_shows ''123-45-6789'' (snd e)) (parse py_float ''Employee SSN: 123-45-6789'')"
  by code_simp

section \<open>Context retriever: the text strategy\<close>









section \<open>Question answering: no context\<close>

lemma retrieve_context_empty:
  assumes "doc_fields d = []" "doc_raw_text d = []"
  shows "retrieve_context eng question d = ([], [])"
proof -
  have s: "semantic_search eng question d = []"
    using assms by (simp add: semantic_search_def py_split_sep_def Let_def py_strip_def split: option.split)
  have e: "extract_relevant_snippets question (doc_raw_text d) = []"
    using assms by (simp add: extract_relevant_snippets_def)
  show ?thesis
    using assms(1) by (simp add: retrieve_context_def Let_def s e py_slice_to_def)
qed

text \<open>
  C8: with an empty context \<open>_generate_answer\<close> returns the fixed answer and
  confidence 0.0 whatever the question is (no intent is looked at). So does \<open>answer\<close>
  whenever the retrieved context is empty; in particular, for a document with no fields
  and empty raw text the retrieved context is empty, with or without an embedding model.
\<close>

theorem answer_no_context:
  "generate_answer eng question [] doc = (no_information, 0) \<and>
   (fst (retrieve_context eng question d) = [] \<longrightarrow>
      qr_answer (answer eng question d) = no_information \<and>
      qr_confidence (answer eng question d) = 0) \<and>
   (doc_fields d = [] \<and> doc_raw_text d = [] \<longrightarrow>
      answer eng question d =
        \<lparr>qr_question = question, qr_answer = no_information, qr_confidence = 0,
         qr_source_fields = [], qr_context = []\<rparr>)"
proof (intro conjI impI)
  show g: "generate_answer eng question [] doc = (no_information, 0)"
    by (simp add: generate_answer_def)
next
  assume "fst (retrieve_context eng question d) = []"
  then obtain sf where "retrieve_context eng question d = ([], sf)"
    by (cases "retrieve_context eng question d") simp
  then show "qr_answer (answer eng question d) = no_information"
    and "qr_confidence (answer eng question d) = 0"
    by (simp_all add: answer_def generate_answer_def)
next
  assume "doc_fields d = [] \<and> doc_raw_text d = []"
  then have "retrieve_context eng question d = ([], [])" by (simp add: retrieve_context_empty)
  then show "answer eng question d =
        \<lparr>qr_question = question, qr_answer = no_information, qr_confidence = 0,
         qr_source_fields = [], qr_context = []\<rparr>"
    by (simp add: answer_def generate_answer_def)
qed

theorem answer_no_context_witness:
  "doc_fields empty_document = [] \<and> doc_raw_text empty_document = [] \<and>
   fst (retrieve_context example_engine ''What is the total?'' empty_document) = [] \<and>
   answer example_engine ''What is the total?'' empty_document =
     \<lparr>qr_question = ''What is the total?'', qr_answer = no_information, qr_confidence = 0,
      qr_source_fields = [], qr_context = []\<rparr>"
proof -
  have f: "doc_fields empty_document = [] \<and> doc_raw_text empty_document = []"
    by (simp add: empty_document_def)
  note t = answer_no_context [of example_engine "''What is the total?''" None empty_document]
  from t f have a: "answer example_engine ''What is the total?'' empty_document =
     \<lparr>qr_question = ''What is the total?'', qr_answer = no_information, qr_confidence = 0,
      qr_source_fields = [], qr_context = []\<rparr>" by blast
  have c: "fst (retrieve_context example_engine ''What is the total?'' empty_document) = []"
    using f by (simp add: retrieve_context_empty)
  from f a c show ?thesis by blast
qed

section \<open>Question answering: quantity questions\<close>








section \<open>Cross-form analysis: the field summary\<close>

























lemma field_summary_example:
  "an_field_summary (cross_form_analysis float_of_decimal
     [\<lparr>doc_fields = [(''Name'', VStr ''Ann''), (''Wages'', VInt 50000)], doc_raw_text = [],
       doc_tables = [], doc_schema_type = None, doc_file_path = ''a.txt''\<rparr>,
      \<lparr>doc_fields = [(''Name'', VStr ''Bob'')], doc_raw_text = [],
       doc_tables = [], doc_schema_type = None, doc_file_path = ''b.txt''\<rparr>]) =
   [(''Wages'', \<lparr>fs_count = 1, fs_sum = 50000, fs_average = 50000, fs_min = 50000, fs_max = 50000\<rparr>)]"
  by code_simp



end
